theory Spec2Isabelle
  imports Complex_Main "HOL-Library.Word" "HOL-Library.Log_Nat"
begin

section \<open>The record store, the trade API and the configuration\<close>

text \<open>
  The synchronisation job of \<^verbatim>\<open>internal/tasks\<close> and the two hooks of
  \<^verbatim>\<open>internal/hooks\<close> run against three collaborators that are not part of the
  repository: the record store of the framework, the remote trade API and the
  configuration reader. Each is modelled by the operations the code calls on it.
  The source holds two revisions of the tasks package; the model follows the one in
  which both \<^verbatim>\<open>UpdateCommodities\<close> and \<^verbatim>\<open>UpdateStarSystems\<close> are written
  out, and not the earlier one, whose \<^verbatim>\<open>UpdateStarSystems\<close> is empty.

  A value handed to \<^verbatim>\<open>Record.Set\<close> keeps its Go type: a string, a bool, an
  \<^verbatim>\<open>int16\<close>, an \<^verbatim>\<open>int\<close> or a \<^verbatim>\<open>float64\<close>. A finite \<^verbatim>\<open>float64\<close> is the
  real number it denotes (\<open>VFloat\<close>; the two zeros are one value); the other
  \<^verbatim>\<open>float64\<close> values are the two infinities and NaN. The prices are decoded from
  JSON, hence finite, and are only compared with 0 and copied. The subtraction of the
  hook is the \<^verbatim>\<open>float64\<close> subtraction of Go, which rounds; it is modelled below.
\<close>

datatype val =
  VNil | VStr string | VBool bool | VInt16 "16 word" | VInt int | VFloat real
  | VPosInf | VNegInf | VNaN

text \<open>A \<^verbatim>\<open>float64\<close> as the result of a computation.\<close>

datatype f64 = Finite real | PosInf | NegInf | NaN

text \<open>A stored row: the identifier given by the store and the named fields.\<close>

record row =
  row_id :: string
  row_flds :: "(string \<times> val) list"

type_synonym dbs = "string \<rightharpoonup> row list"

text \<open>
  A \<^verbatim>\<open>*core.Record\<close> in the hands of the program: the collection it belongs to,
  whether it was made by \<^verbatim>\<open>core.NewRecord\<close> and not saved yet, its identifier
  (empty until the store assigns one) and its fields.
\<close>

record rcd =
  coll_of :: string
  is_new :: bool
  rec_Id :: string
  flds :: "(string \<times> val) list"

record request =
  url :: string
  headers :: "(string \<times> string) list"

text \<open>
  What the program does to the outside world, in order: \<open>Do\<close> is a call of
  \<^verbatim>\<open>http.Client.Do\<close>, \<open>Find\<close> a call of \<^verbatim>\<open>FindFirstRecordByData\<close>, and
  \<open>Tx committed\<close> the end of one \<^verbatim>\<open>RunInTransaction\<close>.
\<close>

datatype event = Do request | Find string string string | Tx bool

record app =
  db :: dbs
  trace :: "event list"

datatype error = NoCollection | NotFound | SaveError

text \<open>
  The answer to one request, as the code inspects it: sending failed, or a status code
  came back together with the body decoded into the expected shape (\<open>None\<close> when
  \<^verbatim>\<open>json.Decoder.Decode\<close> fails).
\<close>

datatype 'a reply = SendFailed | Reply nat "'a option"

record Commodity =
  c_Name :: string
  c_Code :: string
  c_Type :: string
  c_PriceBuy :: real
  c_PriceSell :: real
  c_IsIllegal :: "16 word"
  c_IsAvailableLive :: "16 word"
  c_IsTemporary :: "16 word"
  c_IsSellable :: "16 word"

record StarSystem =
  s_UexID :: "16 word"
  s_Name :: string
  s_Code :: string
  s_Jurisdiction :: string
  s_Faction :: string
  s_IsAvailable :: "16 word"
  s_IsVisible :: "16 word"

record Planet =
  p_UexID :: "16 word"
  p_Name :: string
  p_Code :: string
  p_Jurisdiction :: string
  p_Faction :: string

record Moon =
  m_UexID :: "16 word"
  m_Name :: string
  m_Code :: string
  m_PlanetName :: string
  m_Jurisdiction :: string
  m_Faction :: string

record SpaceStation =
  t_UexID :: "16 word"
  t_StarSystemName :: string
  t_PlanetName :: string
  t_MoonName :: string
  t_Name :: string
  t_Code :: string
  t_PadTypes :: string
  t_Jurisdiction :: string
  t_Faction :: string
  t_HasTerminal :: "16 word"
  t_HasRefinery :: "16 word"
  t_Orbit :: string
  t_IsLagrange :: "16 word"

text \<open>
  The parts of the environment the code cannot see into: which URLs
  \<^verbatim>\<open>http.NewRequest\<close> refuses, what the API answers to a request (one function per
  decoded shape), which saves the store refuses, the identifier it gives a new row,
  and how the framework's cast reads a string as a number.
\<close>

record env =
  bad_url :: "string \<Rightarrow> bool"
  commodities_api :: "request \<Rightarrow> Commodity list reply"
  star_systems_api :: "request \<Rightarrow> StarSystem list reply"
  planets_api :: "request \<Rightarrow> Planet list reply"
  moons_api :: "request \<Rightarrow> Moon list reply"
  space_stations_api :: "request \<Rightarrow> SpaceStation list reply"
  save_fails :: "dbs \<Rightarrow> rcd \<Rightarrow> bool"
  new_id :: "dbs \<Rightarrow> rcd \<Rightarrow> string"
  parse_float :: "string \<Rightarrow> f64"

type_synonym config = "string \<rightharpoonup> string"

subsection \<open>Records\<close>

definition NewRecord :: "string \<Rightarrow> rcd" where
  "NewRecord collection = \<lparr>coll_of = collection, is_new = True, rec_Id = [], flds = []\<rparr>"

fun put_field :: "string \<Rightarrow> val \<Rightarrow> (string \<times> val) list \<Rightarrow> (string \<times> val) list" where
  "put_field k v [] = [(k, v)]"
| "put_field k v (p # ps) = (if fst p = k then (k, v) # ps else p # put_field k v ps)"

definition Set_rec :: "string \<Rightarrow> val \<Rightarrow> rcd \<Rightarrow> rcd" where
  "Set_rec k v r = r\<lparr>flds := put_field k v (flds r)\<rparr>"

definition field_of :: "(string \<times> val) list \<Rightarrow> string \<Rightarrow> val" where
  "field_of fs k = (case map_of fs k of None \<Rightarrow> VNil | Some v \<Rightarrow> v)"

definition Get_rec :: "rcd \<Rightarrow> string \<Rightarrow> val" where
  "Get_rec r k = field_of (flds r) k"

subsection \<open>Store operations\<close>

definition log_event :: "event \<Rightarrow> app \<Rightarrow> app" where
  "log_event e s = s\<lparr>trace := trace s @ [e]\<rparr>"

definition FindCollectionByNameOrId :: "string \<Rightarrow> app \<Rightarrow> string option" where
  "FindCollectionByNameOrId name s = (case db s name of None \<Rightarrow> None | Some rows \<Rightarrow> Some name)"

definition as_record :: "string \<Rightarrow> row \<Rightarrow> rcd" where
  "as_record collection x =
     \<lparr>coll_of = collection, is_new = False, rec_Id = row_id x, flds = row_flds x\<rparr>"

definition first_row :: "dbs \<Rightarrow> string \<Rightarrow> string \<Rightarrow> string \<Rightarrow> row option" where
  "first_row d collection key v =
     (case d collection of
        None \<Rightarrow> None
      | Some rows \<Rightarrow> find (\<lambda>x. field_of (row_flds x) key = VStr v) rows)"

text \<open>
  \<^verbatim>\<open>FindFirstRecordByData\<close>: the first row of the collection whose field has the
  given string value. Every caller treats every error as "no such record", so the
  result is an option.
\<close>

definition FindFirstRecordByData ::
    "string \<Rightarrow> string \<Rightarrow> string \<Rightarrow> app \<Rightarrow> rcd option \<times> app" where
  "FindFirstRecordByData collection key v s =
     (map_option (as_record collection) (first_row (db s) collection key v),
      log_event (Find collection key v) s)"

definition FindAllRecords :: "string \<Rightarrow> app \<Rightarrow> rcd list option" where
  "FindAllRecords collection s = map_option (map (as_record collection)) (db s collection)"

text \<open>
  \<^verbatim>\<open>Save\<close>: a refused save changes nothing; a new record is appended under the
  identifier the store gives it (its own when it has one); a record read from the
  store replaces the row of its identifier.
\<close>

definition Save :: "env \<Rightarrow> rcd \<Rightarrow> app \<Rightarrow> error option \<times> app" where
  "Save E r s =
     (if save_fails E (db s) r then (Some SaveError, s)
      else case db s (coll_of r) of
        None \<Rightarrow> (Some NoCollection, s)
      | Some rows \<Rightarrow>
          if is_new r
          then (None, s\<lparr>db := (db s)(coll_of r \<mapsto>
                  rows @ [\<lparr>row_id = (if rec_Id r = [] then new_id E (db s) r else rec_Id r),
                           row_flds = flds r\<rparr>])\<rparr>)
          else (None, s\<lparr>db := (db s)(coll_of r \<mapsto>
                  map (\<lambda>x. if row_id x = rec_Id r
                           then \<lparr>row_id = rec_Id r, row_flds = flds r\<rparr> else x) rows)\<rparr>))"

text \<open>
  \<^verbatim>\<open>RunInTransaction\<close>: the body runs on the store; when it returns an error the
  store is put back as it was, and what happened outside the store stays.
\<close>

definition RunInTransaction :: "(app \<Rightarrow> error option \<times> app) \<Rightarrow> app \<Rightarrow> error option \<times> app" where
  "RunInTransaction body s =
     (case body s of
        (None, s') \<Rightarrow> (None, log_event (Tx True) s')
      | (Some e, s') \<Rightarrow> (Some e, log_event (Tx False) (s'\<lparr>db := db s\<rparr>)))"

text \<open>
  A \<^verbatim>\<open>for ... range\<close> loop: the body of the loop either goes on to the next
  element (\<open>None\<close>, also after \<^verbatim>\<open>continue\<close>) or makes the enclosing function
  return (\<open>Some\<close> of what it returns), which ends the loop.
\<close>

fun for_each :: "('a \<Rightarrow> app \<Rightarrow> 'r option \<times> app) \<Rightarrow> 'a list \<Rightarrow> app \<Rightarrow> 'r option \<times> app" where
  "for_each f [] s = (None, s)"
| "for_each f (x # xs) s =
     (case f x s of (None, s') \<Rightarrow> for_each f xs s' | (Some e, s') \<Rightarrow> (Some e, s'))"

subsection \<open>Strings and numbers\<close>

definition lower_char :: "char \<Rightarrow> char" where
  "lower_char c =
     (case map_of (zip ''ABCDEFGHIJKLMNOPQRSTUVWXYZ'' ''abcdefghijklmnopqrstuvwxyz'') c of
        None \<Rightarrow> c | Some d \<Rightarrow> d)"

text \<open>\<^verbatim>\<open>strings.ToLower\<close> on ASCII text.\<close>

definition ToLower :: "string \<Rightarrow> string" where
  "ToLower s = map lower_char s"

fun HasPrefix :: "string \<Rightarrow> string \<Rightarrow> bool" where
  "HasPrefix s [] = True"
| "HasPrefix [] (p # ps) = False"
| "HasPrefix (x # xs) (p # ps) = (x = p \<and> HasPrefix xs ps)"

fun Contains :: "string \<Rightarrow> string \<Rightarrow> bool" where
  "Contains [] substr = (substr = [])"
| "Contains (x # xs) substr = (HasPrefix (x # xs) substr \<or> Contains xs substr)"

definition ContainsIgnoreCase :: "string \<Rightarrow> string \<Rightarrow> bool" where
  "ContainsIgnoreCase str substr = Contains (ToLower str) (ToLower substr)"

definition ConvertToBool :: "16 word \<Rightarrow> bool" where
  "ConvertToBool v = (v = 1)"

fun digits :: "nat \<Rightarrow> string" where
  "digits n =
     (if n < 10 then [''0123456789'' ! n]
      else digits (n div 10) @ [''0123456789'' ! (n mod 10)])"

declare digits.simps [simp del]

text \<open>The verb \<^verbatim>\<open>%d\<close> of \<^verbatim>\<open>fmt.Sprintf\<close>.\<close>

definition fmt_d :: "int \<Rightarrow> string" where
  "fmt_d i = (if i < 0 then CHR ''-'' # digits (nat (- i)) else digits (nat i))"

subsection \<open>The subtraction of two float64\<close>

text \<open>
  A binary64 value other than zero is \<open>m * 2 powi (e - 52)\<close> with an integer \<open>m\<close> of
  at most 53 bits and an exponent \<open>e\<close> from \<open>-1022\<close> to \<open>1023\<close>. Go computes
  \<^verbatim>\<open>a - b\<close> as the exact difference rounded to the nearest such value, a tie going
  to the even \<open>m\<close>, and to an infinity when the rounded magnitude reaches
  \<open>2 powi 1024\<close>.

  \<open>ilog2 a\<close> is the exponent of a positive real, the \<open>e\<close> with
  \<open>2 powi e \<le> a < 2 powi (e + 1)\<close>; \<open>ulp_of a\<close> is the distance between the binary64
  values around \<open>a\<close>; \<open>rne\<close> rounds to the nearest integer, ties to even.
\<close>

definition ilog2 :: "real \<Rightarrow> int" where
  "ilog2 a =
     (if 1 \<le> a then bitlen \<lfloor>a\<rfloor> - 1
      else let k = bitlen \<lfloor>1 / a\<rfloor> - 1
           in if a * 2 powi k = 1 then - k else - k - 1)"

definition rne :: "real \<Rightarrow> int" where
  "rne x =
     (let f = \<lfloor>x\<rfloor>; d = x - of_int f
      in if d < 1 / 2 then f else if 1 / 2 < d then f + 1 else if even f then f else f + 1)"

definition ulp_of :: "real \<Rightarrow> real" where
  "ulp_of a = 2 powi (max (ilog2 a) (- 1022) - 52)"

definition round_f64 :: "real \<Rightarrow> f64" where
  "round_f64 x =
     (if x = 0 then Finite 0
      else let r = of_int (rne (\<bar>x\<bar> / ulp_of \<bar>x\<bar>)) * ulp_of \<bar>x\<bar>
           in if 2 powi 1024 \<le> r then (if x < 0 then NegInf else PosInf)
              else Finite (if x < 0 then - r else r))"

fun f64_sub :: "f64 \<Rightarrow> f64 \<Rightarrow> f64" where
  "f64_sub NaN y = NaN"
| "f64_sub x NaN = NaN"
| "f64_sub PosInf PosInf = NaN"
| "f64_sub NegInf NegInf = NaN"
| "f64_sub PosInf y = PosInf"
| "f64_sub NegInf y = NegInf"
| "f64_sub (Finite a) PosInf = NegInf"
| "f64_sub (Finite a) NegInf = PosInf"
| "f64_sub (Finite a) (Finite b) = round_f64 (a - b)"

fun val_of_f64 :: "f64 \<Rightarrow> val" where
  "val_of_f64 (Finite x) = VFloat x"
| "val_of_f64 PosInf = VPosInf"
| "val_of_f64 NegInf = VNegInf"
| "val_of_f64 NaN = VNaN"

text \<open>
  \<^verbatim>\<open>Record.GetFloat\<close>: the framework's cast of the stored value to \<^verbatim>\<open>float64\<close>.
  An \<^verbatim>\<open>int\<close> is converted with rounding, an \<^verbatim>\<open>int16\<close> exactly, a string is
  parsed, and a value that is not there is 0.
\<close>

definition GetFloat :: "env \<Rightarrow> rcd \<Rightarrow> string \<Rightarrow> f64" where
  "GetFloat E r k =
     (case Get_rec r k of
        VNil \<Rightarrow> Finite 0
      | VStr s \<Rightarrow> parse_float E s
      | VBool b \<Rightarrow> Finite (if b then 1 else 0)
      | VInt16 w \<Rightarrow> Finite (of_int (sint w))
      | VInt i \<Rightarrow> round_f64 (of_int i)
      | VFloat x \<Rightarrow> Finite x
      | VPosInf \<Rightarrow> PosInf
      | VNegInf \<Rightarrow> NegInf
      | VNaN \<Rightarrow> NaN)"

subsection \<open>The configuration\<close>

text \<open>\<^verbatim>\<open>viper.Get(key).(string)\<close>: the value and whether it is there.\<close>

definition viper_Get_string :: "config \<Rightarrow> string \<Rightarrow> string \<times> bool" where
  "viper_Get_string cfg key = (case cfg key of None \<Rightarrow> ([], False) | Some v \<Rightarrow> (v, True))"

section \<open>Commodity synchronisation\<close>

text \<open>One turn of the loop over the decoded commodities.\<close>

definition commodity_step :: "env \<Rightarrow> string \<Rightarrow> Commodity \<Rightarrow> app \<Rightarrow> error option \<times> app" where
  "commodity_step E collection commodity s =
     (if c_IsAvailableLive commodity = 0 \<or> c_IsTemporary commodity = 1 \<or> c_IsSellable commodity = 0
      then (None, s)
      else if c_Type commodity = ''Temporary'' \<and> c_PriceSell commodity = 0 then (None, s)
      else if ContainsIgnoreCase (c_Name commodity) ''year of the'' then (None, s)
      else
        let c1 = (if ContainsIgnoreCase (c_Name commodity) ''ore''
                  then commodity\<lparr>c_Type := ''Ore''\<rparr> else commodity);
            c2 = (if ContainsIgnoreCase (c_Name c1) ''raw'' then c1\<lparr>c_Type := ''Raw''\<rparr> else c1)
        in case FindFirstRecordByData ''commodities'' ''code'' (c_Code c2) s of
             (None, s1) \<Rightarrow>
               Save E
                 (Set_rec ''is_illegal'' (VBool (ConvertToBool (c_IsIllegal c2)))
                 (Set_rec ''price_sell'' (VFloat (c_PriceSell c2))
                 (Set_rec ''price_buy'' (VFloat (c_PriceBuy c2))
                 (Set_rec ''type'' (VStr (c_Type c2))
                 (Set_rec ''code'' (VStr (c_Code c2))
                 (Set_rec ''name'' (VStr (c_Name c2))
                 (NewRecord collection))))))) s1
           | (Some existingCommodity, s1) \<Rightarrow>
               Save E
                 (Set_rec ''is_illegal'' (VInt16 (c_IsIllegal c2))
                 (Set_rec ''price_sell'' (VFloat (c_PriceSell c2))
                 (Set_rec ''price_buy'' (VFloat (c_PriceBuy c2))
                 (Set_rec ''type'' (VStr (c_Type c2))
                 existingCommodity)))) s1)"

definition std_headers :: "string \<Rightarrow> (string \<times> string) list" where
  "std_headers uexApiKey =
     [(''Content-Type'', ''application/json''), (''Authorization'', ''Bearer '' @ uexApiKey)]"

text \<open>
  What the code gets out of one answer: it returns when sending failed, when the
  status is not 200 and when the body does not decode, in this order.
\<close>

definition decoded :: "'a reply \<Rightarrow> 'a option" where
  "decoded r = (case r of SendFailed \<Rightarrow> None
                | Reply status body \<Rightarrow> if status \<noteq> 200 then None else body)"

definition commodities_sync :: "env \<Rightarrow> request \<Rightarrow> app \<Rightarrow> app" where
  "commodities_sync E req s1 =
     (case decoded (commodities_api E req) of
        None \<Rightarrow> s1
      | Some data \<Rightarrow>
          (case FindCollectionByNameOrId ''commodities'' s1 of
             None \<Rightarrow> s1
           | Some collection \<Rightarrow>
               snd (RunInTransaction (for_each (commodity_step E collection) data) s1)))"

definition UpdateCommodities :: "config \<Rightarrow> env \<Rightarrow> app \<Rightarrow> app" where
  "UpdateCommodities cfg E s =
     (case viper_Get_string cfg ''UEX_API_URL'' of
        (uexApiUrl, ok1) \<Rightarrow>
          if \<not> ok1 then s
          else (case viper_Get_string cfg ''UEX_API_KEY'' of
            (uexApiKey, ok2) \<Rightarrow>
              if \<not> ok2 then s
              else if bad_url E (uexApiUrl @ ''/commodities'') then s
              else commodities_sync E
                     \<lparr>url = uexApiUrl @ ''/commodities'', headers = std_headers uexApiKey\<rparr>
                     (log_event
                        (Do \<lparr>url = uexApiUrl @ ''/commodities'', headers = std_headers uexApiKey\<rparr>) s)))"

section \<open>Star-system synchronisation\<close>

text \<open>One turn of each of the four reconciliation loops.\<close>

definition system_step :: "env \<Rightarrow> string \<Rightarrow> StarSystem \<Rightarrow> app \<Rightarrow> error option \<times> app" where
  "system_step E starSystemCollection system s =
     (case FindFirstRecordByData ''star_systems'' ''code'' (s_Code system) s of
        (None, s1) \<Rightarrow>
          Save E
            (Set_rec ''faction'' (VStr (s_Faction system))
            (Set_rec ''jurisdiction'' (VStr (s_Jurisdiction system))
            (Set_rec ''code'' (VStr (s_Code system))
            (Set_rec ''name'' (VStr (s_Name system))
            (NewRecord starSystemCollection))))) s1
      | (Some existingSystem, s1) \<Rightarrow>
          Save E
            (Set_rec ''faction'' (VStr (s_Faction system))
            (Set_rec ''jurisdiction'' (VStr (s_Jurisdiction system))
            existingSystem)) s1)"

definition planet_fields :: "Planet \<Rightarrow> rcd \<Rightarrow> rcd" where
  "planet_fields planet r =
     Set_rec ''faction'' (VStr (p_Faction planet))
    (Set_rec ''jurisdiction'' (VStr (p_Jurisdiction planet))
    (Set_rec ''code'' (VStr (p_Code planet))
    (Set_rec ''name'' (VStr (p_Name planet)) r)))"

definition planet_step :: "env \<Rightarrow> string \<Rightarrow> Planet \<Rightarrow> app \<Rightarrow> error option \<times> app" where
  "planet_step E planetsCollection planet s =
     (case FindFirstRecordByData ''planets'' ''code'' (p_Code planet) s of
        (None, s1) \<Rightarrow> Save E (planet_fields planet (NewRecord planetsCollection)) s1
      | (Some existingPlanet, s1) \<Rightarrow> Save E (planet_fields planet existingPlanet) s1)"

definition moon_fields :: "Moon \<Rightarrow> rcd \<Rightarrow> rcd \<Rightarrow> rcd" where
  "moon_fields moon existingPlanet r =
     Set_rec ''faction'' (VStr (m_Faction moon))
    (Set_rec ''jurisdiction'' (VStr (m_Jurisdiction moon))
    (Set_rec ''planet'' (VStr (rec_Id existingPlanet))
    (Set_rec ''code'' (VStr (m_Code moon))
    (Set_rec ''name'' (VStr (m_Name moon)) r))))"

definition moon_step :: "env \<Rightarrow> string \<Rightarrow> Moon \<Rightarrow> app \<Rightarrow> error option \<times> app" where
  "moon_step E moonsCollection moon s =
     (case FindFirstRecordByData ''planets'' ''name'' (m_PlanetName moon) s of
        (None, s1) \<Rightarrow> (None, s1)
      | (Some existingPlanet, s1) \<Rightarrow>
          (case FindFirstRecordByData ''moons'' ''code'' (m_Code moon) s1 of
             (None, s2) \<Rightarrow> Save E (moon_fields moon existingPlanet (NewRecord moonsCollection)) s2
           | (Some existingMoon, s2) \<Rightarrow> Save E (moon_fields moon existingPlanet existingMoon) s2))"

text \<open>
  The optional parents of a station: the planet is looked up when the planet name is
  not empty, and the moon inside that branch, when the moon name is not empty either.
\<close>

definition station_parents :: "SpaceStation \<Rightarrow> app \<Rightarrow> (rcd option \<times> rcd option) \<times> app" where
  "station_parents spaceStation s =
     (if t_PlanetName spaceStation \<noteq> []
      then (case FindFirstRecordByData ''planets'' ''name'' (t_PlanetName spaceStation) s of
              (existingPlanet, s1) \<Rightarrow>
                if t_MoonName spaceStation \<noteq> []
                then (case FindFirstRecordByData ''moons'' ''name'' (t_MoonName spaceStation) s1 of
                        (existingMoon, s2) \<Rightarrow> ((existingPlanet, existingMoon), s2))
                else ((existingPlanet, None), s1))
      else ((None, None), s))"

definition Set_Id :: "string \<Rightarrow> rcd option \<Rightarrow> rcd \<Rightarrow> rcd" where
  "Set_Id k parent r = (case parent of None \<Rightarrow> r | Some x \<Rightarrow> Set_rec k (VStr (rec_Id x)) r)"

text \<open>The eleven assignments, the same on the create path and on the update path.\<close>

definition station_fields ::
    "SpaceStation \<Rightarrow> rcd \<Rightarrow> rcd option \<Rightarrow> rcd option \<Rightarrow> rcd \<Rightarrow> rcd" where
  "station_fields spaceStation existingStarSystem existingPlanet existingMoon r =
     Set_rec ''is_lagrange'' (VBool (ConvertToBool (t_IsLagrange spaceStation)))
    (Set_rec ''orbit'' (VStr (t_Orbit spaceStation))
    (Set_Id ''moon'' existingMoon
    (Set_Id ''planet'' existingPlanet
    (Set_rec ''star_system'' (VStr (rec_Id existingStarSystem))
    (Set_rec ''has_refinery'' (VBool (ConvertToBool (t_HasRefinery spaceStation)))
    (Set_rec ''has_trade_terminal'' (VBool (ConvertToBool (t_HasTerminal spaceStation)))
    (Set_rec ''faction'' (VStr (t_Faction spaceStation))
    (Set_rec ''jurisdiction'' (VStr (t_Jurisdiction spaceStation))
    (Set_rec ''pad_types'' (VStr (t_PadTypes spaceStation))
    (Set_rec ''name'' (VStr (t_Name spaceStation)) r))))))))))"

definition station_step :: "env \<Rightarrow> string \<Rightarrow> SpaceStation \<Rightarrow> app \<Rightarrow> error option \<times> app" where
  "station_step E spaceStationsCollection spaceStation s =
     (case FindFirstRecordByData ''star_systems'' ''name'' (t_StarSystemName spaceStation) s of
        (None, s1) \<Rightarrow> (Some NotFound, s1)
      | (Some existingStarSystem, s1) \<Rightarrow>
          (case station_parents spaceStation s1 of
             ((existingPlanet, existingMoon), s2) \<Rightarrow>
               (case FindFirstRecordByData ''space_stations'' ''name'' (t_Name spaceStation) s2 of
                  (None, s3) \<Rightarrow>
                    Save E (station_fields spaceStation existingStarSystem existingPlanet
                              existingMoon (NewRecord spaceStationsCollection)) s3
                | (Some existingSpaceStation, s3) \<Rightarrow>
                    Save E (station_fields spaceStation existingStarSystem existingPlanet
                              existingMoon existingSpaceStation) s3)))"

text \<open>
  The requests for moons and space stations of one system. The headers are set on the
  request for the star systems again, not on the new request, which goes out without
  them. \<open>Some ()\<close> is the \<^verbatim>\<open>return\<close> of \<^verbatim>\<open>UpdateStarSystems\<close>.
\<close>

definition moons_of_system :: "env \<Rightarrow> string \<Rightarrow> StarSystem \<Rightarrow> app \<Rightarrow> unit option \<times> app" where
  "moons_of_system E uexApiUrl system s =
     (let moonReq = \<lparr>url = uexApiUrl @ ''/moons?id_star_system='' @ fmt_d (sint (s_UexID system)),
                      headers = []\<rparr>
      in if bad_url E (url moonReq) then (Some (), s)
         else case decoded (moons_api E moonReq) of
           None \<Rightarrow> (Some (), log_event (Do moonReq) s)
         | Some data \<Rightarrow>
             (case FindCollectionByNameOrId ''moons'' (log_event (Do moonReq) s) of
                None \<Rightarrow> (Some (), log_event (Do moonReq) s)
              | Some moonsCollection \<Rightarrow>
                  (None, snd (RunInTransaction (for_each (moon_step E moonsCollection) data)
                                (log_event (Do moonReq) s)))))"

definition stations_of_system :: "env \<Rightarrow> string \<Rightarrow> StarSystem \<Rightarrow> app \<Rightarrow> unit option \<times> app" where
  "stations_of_system E uexApiUrl system s =
     (let spaceStationReq =
            \<lparr>url = uexApiUrl @ ''/space_stations?id_star_system='' @ fmt_d (sint (s_UexID system)),
             headers = []\<rparr>
      in if bad_url E (url spaceStationReq) then (Some (), s)
         else case decoded (space_stations_api E spaceStationReq) of
           None \<Rightarrow> (Some (), log_event (Do spaceStationReq) s)
         | Some data \<Rightarrow>
             (case FindCollectionByNameOrId ''space_stations'' (log_event (Do spaceStationReq) s) of
                None \<Rightarrow> (Some (), log_event (Do spaceStationReq) s)
              | Some spaceStationsCollection \<Rightarrow>
                  (None, snd (RunInTransaction
                                (for_each (station_step E spaceStationsCollection) data)
                                (log_event (Do spaceStationReq) s)))))"

text \<open>
  One turn of the loop headed \<^verbatim>\<open>// Planets\<close>. Its body holds the request and the
  transaction for the planets of the system and, before its closing brace, the two
  loops headed \<^verbatim>\<open>// Moons\<close> and \<^verbatim>\<open>// Space Stations\<close>, each over the whole list
  of relevant systems.
\<close>

definition planets_of_system ::
    "env \<Rightarrow> string \<Rightarrow> StarSystem list \<Rightarrow> StarSystem \<Rightarrow> app \<Rightarrow> unit option \<times> app" where
  "planets_of_system E uexApiUrl relevantSystems system s =
     (let planetReq = \<lparr>url = uexApiUrl @ ''/planets?id_star_system='' @ fmt_d (sint (s_UexID system)),
                        headers = []\<rparr>
      in if bad_url E (url planetReq) then (Some (), s)
         else case decoded (planets_api E planetReq) of
           None \<Rightarrow> (Some (), log_event (Do planetReq) s)
         | Some data \<Rightarrow>
             (case FindCollectionByNameOrId ''planets'' (log_event (Do planetReq) s) of
                None \<Rightarrow> (Some (), log_event (Do planetReq) s)
              | Some planetsCollection \<Rightarrow>
                  (case for_each (moons_of_system E uexApiUrl) relevantSystems
                          (snd (RunInTransaction (for_each (planet_step E planetsCollection) data)
                                  (log_event (Do planetReq) s))) of
                     (Some u, s3) \<Rightarrow> (Some u, s3)
                   | (None, s3) \<Rightarrow>
                       for_each (stations_of_system E uexApiUrl) relevantSystems s3)))"

definition star_systems_sync :: "env \<Rightarrow> string \<Rightarrow> request \<Rightarrow> app \<Rightarrow> app" where
  "star_systems_sync E uexApiUrl req s1 =
     (case decoded (star_systems_api E req) of
        None \<Rightarrow> s1
      | Some data \<Rightarrow>
          (let relevantSystems =
                 filter (\<lambda>system. s_IsAvailable system = 1 \<and> s_IsVisible system = 1) data
           in case FindCollectionByNameOrId ''star_systems'' s1 of
                None \<Rightarrow> s1
              | Some starSystemCollection \<Rightarrow>
                  snd (for_each (planets_of_system E uexApiUrl relevantSystems) relevantSystems
                         (snd (RunInTransaction
                                 (for_each (system_step E starSystemCollection) relevantSystems)
                                 s1)))))"

text \<open>
  A missing setting is logged and the function goes on with the empty string that the
  failed type assertion leaves in the variable.
\<close>

definition UpdateStarSystems :: "config \<Rightarrow> env \<Rightarrow> app \<Rightarrow> app" where
  "UpdateStarSystems cfg E s =
     (case viper_Get_string cfg ''UEX_API_URL'' of
        (uexApiUrl, ok1) \<Rightarrow>
          (case viper_Get_string cfg ''UEX_API_KEY'' of
             (uexApiKey, ok2) \<Rightarrow>
               if bad_url E (uexApiUrl @ ''/star_systems'') then s
               else star_systems_sync E uexApiUrl
                      \<lparr>url = uexApiUrl @ ''/star_systems'', headers = std_headers uexApiKey\<rparr>
                      (log_event
                         (Do \<lparr>url = uexApiUrl @ ''/star_systems'', headers = std_headers uexApiKey\<rparr>)
                         s)))"

section \<open>The hooks\<close>

text \<open>
  A record event carries the record and, through \<^verbatim>\<open>Record.Original\<close>, the
  snapshot of the record as it was loaded.
\<close>

record RecordEvent =
  Record :: rcd
  Original :: rcd

definition outpostCommodity :: "RecordEvent \<Rightarrow> string \<Rightarrow> rcd \<Rightarrow> rcd" where
  "outpostCommodity e outpostCommodityCollection commodity =
     Set_rec ''amount'' (VInt 0)
    (Set_rec ''commodity'' (VStr (rec_Id commodity))
    (Set_rec ''outpost'' (VStr (rec_Id (Record e)))
    (NewRecord outpostCommodityCollection)))"

definition outpost_commodity_step ::
    "env \<Rightarrow> RecordEvent \<Rightarrow> string \<Rightarrow> rcd \<Rightarrow> app \<Rightarrow> error option \<times> app" where
  "outpost_commodity_step E e outpostCommodityCollection commodity s =
     Save E (outpostCommodity e outpostCommodityCollection commodity) s"

definition outpost_commodities_tx :: "env \<Rightarrow> RecordEvent \<Rightarrow> app \<Rightarrow> error option \<times> app" where
  "outpost_commodities_tx E e s =
     (case FindCollectionByNameOrId ''outpost_commodities'' s of
        None \<Rightarrow> (Some NoCollection, s)
      | Some outpostCommodityCollection \<Rightarrow>
          (case FindAllRecords ''commodities'' s of
             None \<Rightarrow> (Some NoCollection, s)
           | Some commodities \<Rightarrow>
               for_each (outpost_commodity_step E e outpostCommodityCollection) commodities s))"

definition CreateOutpostCommodities :: "env \<Rightarrow> RecordEvent \<Rightarrow> app \<Rightarrow> app" where
  "CreateOutpostCommodities E e s = snd (RunInTransaction (outpost_commodities_tx E e) s)"

definition commodityChangeRecord :: "env \<Rightarrow> RecordEvent \<Rightarrow> string \<Rightarrow> rcd" where
  "commodityChangeRecord E e commodityChangesCollection =
     (let original = Original e;
          newAmount = GetFloat E (Record e) ''amount'';
          previousAmount = GetFloat E original ''amount'';
          quantityChange = f64_sub newAmount previousAmount
      in Set_rec ''change_amount'' (val_of_f64 quantityChange)
        (Set_rec ''commodity'' (Get_rec (Record e) ''commodity'')
        (Set_rec ''outpost_commodity'' (VStr (rec_Id (Record e)))
        (NewRecord commodityChangesCollection))))"

definition commodity_changes_tx :: "env \<Rightarrow> RecordEvent \<Rightarrow> app \<Rightarrow> error option \<times> app" where
  "commodity_changes_tx E e s =
     (case FindCollectionByNameOrId ''commodity_changes'' s of
        None \<Rightarrow> (Some NoCollection, s)
      | Some commodityChangesCollection \<Rightarrow>
          Save E (commodityChangeRecord E e commodityChangesCollection) s)"

definition CreateCommodityChanges :: "env \<Rightarrow> RecordEvent \<Rightarrow> app \<Rightarrow> app" where
  "CreateCommodityChanges E e s = snd (RunInTransaction (commodity_changes_tx E e) s)"

section \<open>Concrete inputs\<close>

text \<open>
  An environment in which every request is answered with status 200 and an empty list,
  no save is refused and a new row is numbered after the rows already there; a
  configuration with both settings; a store with the seven collections, all empty.
\<close>

definition quiet_env :: env where
  "quiet_env =
     \<lparr>bad_url = (\<lambda>u. False),
      commodities_api = (\<lambda>r. Reply 200 (Some [])),
      star_systems_api = (\<lambda>r. Reply 200 (Some [])),
      planets_api = (\<lambda>r. Reply 200 (Some [])),
      moons_api = (\<lambda>r. Reply 200 (Some [])),
      space_stations_api = (\<lambda>r. Reply 200 (Some [])),
      save_fails = (\<lambda>d r. False),
      new_id = (\<lambda>d r. case d (coll_of r) of
                          None \<Rightarrow> ''r''
                        | Some rows \<Rightarrow> ''r'' @ fmt_d (int (length rows))),
      parse_float = (\<lambda>s. Finite 0)\<rparr>"

definition serving_commodities :: "Commodity list \<Rightarrow> env" where
  "serving_commodities data = quiet_env\<lparr>commodities_api := \<lambda>r. Reply 200 (Some data)\<rparr>"

definition both_settings :: config where
  "both_settings = [''UEX_API_URL'' \<mapsto> ''https://uex'', ''UEX_API_KEY'' \<mapsto> ''k'']"

definition empty_store :: app where
  "empty_store =
     \<lparr>db = [''commodities'' \<mapsto> [], ''star_systems'' \<mapsto> [], ''planets'' \<mapsto> [],
            ''moons'' \<mapsto> [], ''space_stations'' \<mapsto> [], ''outpost_commodities'' \<mapsto> [],
            ''commodity_changes'' \<mapsto> []],
      trace = []\<rparr>"

text \<open>
  A sellable commodity that is not temporary and whose available-live flag is 2: not 1,
  hence false as a flag, and not 0 either.
\<close>

definition odd_flag :: Commodity where
  "odd_flag =
     \<lparr>c_Name = ''Gold Ore'', c_Code = ''GOLD'', c_Type = ''Metal'', c_PriceBuy = 0,
      c_PriceSell = 5, c_IsIllegal = 2, c_IsAvailableLive = 2, c_IsTemporary = 0,
      c_IsSellable = 1\<rparr>"

definition unlisted :: Commodity where
  "unlisted = odd_flag\<lparr>c_IsAvailableLive := 0\<rparr>"

definition gold_ore :: Commodity where
  "gold_ore =
     \<lparr>c_Name = ''Gold Ore'', c_Code = ''GOLD'', c_Type = ''Metal'', c_PriceBuy = 0,
      c_PriceSell = 5, c_IsIllegal = 0, c_IsAvailableLive = 1, c_IsTemporary = 0,
      c_IsSellable = 1\<rparr>"

definition raw_ore :: Commodity where
  "raw_ore = gold_ore\<lparr>c_Name := ''Iron (Raw Ore)'', c_Code := ''IRON''\<rparr>"

definition yela :: Moon where
  "yela =
     \<lparr>m_UexID = 7, m_Name = ''Yela'', m_Code = ''YELA'', m_PlanetName = ''Crusader'',
      m_Jurisdiction = ''UEE'', m_Faction = ''None''\<rparr>"

definition port :: SpaceStation where
  "port =
     \<lparr>t_UexID = 3, t_StarSystemName = ''Stanton'', t_PlanetName = [], t_MoonName = ''Yela'',
      t_Name = ''Port'', t_Code = ''PORT'', t_PadTypes = ''S'', t_Jurisdiction = ''UEE'',
      t_Faction = ''None'', t_HasTerminal = 1, t_HasRefinery = 0, t_Orbit = ''Yela'',
      t_IsLagrange = 0\<rparr>"

text \<open>
  A store with two commodities, the event of a new outpost, the event of a stock row
  whose amount goes from 5 to 8 and the event of one whose amount goes from 1 to
  10000000000000000; an environment whose store refuses the stock row of the second
  commodity, and one whose store refuses every change row.
\<close>

definition two_goods :: app where
  "two_goods =
     empty_store\<lparr>db := (db empty_store)(''commodities'' \<mapsto>
        [\<lparr>row_id = ''c1'', row_flds = [(''name'', VStr ''Gold''), (''code'', VStr ''GOLD'')]\<rparr>,
         \<lparr>row_id = ''c2'', row_flds = [(''name'', VStr ''Iron''), (''code'', VStr ''IRON'')]\<rparr>])\<rparr>"

definition new_outpost :: RecordEvent where
  "new_outpost =
     \<lparr>Record = \<lparr>coll_of = ''outposts'', is_new = False, rec_Id = ''o1'',
                 flds = [(''name'', VStr ''Camp'')]\<rparr>,
      Original = \<lparr>coll_of = ''outposts'', is_new = False, rec_Id = ''o1'',
                   flds = [(''name'', VStr ''Camp'')]\<rparr>\<rparr>"

definition stock_5_to_8 :: RecordEvent where
  "stock_5_to_8 =
     \<lparr>Record = \<lparr>coll_of = ''outpost_commodities'', is_new = False, rec_Id = ''oc1'',
                 flds = [(''outpost'', VStr ''o1''), (''commodity'', VStr ''c1''),
                         (''amount'', VFloat 8)]\<rparr>,
      Original = \<lparr>coll_of = ''outpost_commodities'', is_new = False, rec_Id = ''oc1'',
                   flds = [(''outpost'', VStr ''o1''), (''commodity'', VStr ''c1''),
                           (''amount'', VFloat 5)]\<rparr>\<rparr>"

definition stock_1_to_1e16 :: RecordEvent where
  "stock_1_to_1e16 =
     \<lparr>Record = \<lparr>coll_of = ''outpost_commodities'', is_new = False, rec_Id = ''oc1'',
                 flds = [(''outpost'', VStr ''o1''), (''commodity'', VStr ''c1''),
                         (''amount'', VFloat 10000000000000000)]\<rparr>,
      Original = \<lparr>coll_of = ''outpost_commodities'', is_new = False, rec_Id = ''oc1'',
                   flds = [(''outpost'', VStr ''o1''), (''commodity'', VStr ''c1''),
                           (''amount'', VFloat 1)]\<rparr>\<rparr>"

definition refusing_second :: env where
  "refusing_second =
     quiet_env\<lparr>save_fails := \<lambda>d r. field_of (flds r) ''commodity'' = VStr ''c2''\<rparr>"

definition refusing_changes :: env where
  "refusing_changes = quiet_env\<lparr>save_fails := \<lambda>d r. coll_of r = ''commodity_changes''\<rparr>"

text \<open>
  Two star systems, both available and visible; an environment whose API lists given
  star systems; a configuration without the API key; the URLs of the requests of a
  trace; a store in which the station \<open>port\<close> exists with a moon reference.
\<close>

definition stanton :: StarSystem where
  "stanton =
     \<lparr>s_UexID = 68, s_Name = ''Stanton'', s_Code = ''ST'', s_Jurisdiction = ''UEE'',
      s_Faction = ''United Empire of Earth'', s_IsAvailable = 1, s_IsVisible = 1\<rparr>"

definition pyro :: StarSystem where
  "pyro =
     \<lparr>s_UexID = 64, s_Name = ''Pyro'', s_Code = ''PY'', s_Jurisdiction = ''Ungoverned'',
      s_Faction = ''None'', s_IsAvailable = 1, s_IsVisible = 1\<rparr>"

definition serving_systems :: "StarSystem list \<Rightarrow> env" where
  "serving_systems data = quiet_env\<lparr>star_systems_api := \<lambda>r. Reply 200 (Some data)\<rparr>"

definition only_url :: config where
  "only_url = [''UEX_API_URL'' \<mapsto> ''https://uex'']"

fun requested :: "event list \<Rightarrow> string list" where
  "requested [] = []"
| "requested (Do r # es) = url r # requested es"
| "requested (e # es) = requested es"

definition port_store :: app where
  "port_store =
     empty_store\<lparr>db := (db empty_store)
       (''star_systems'' \<mapsto>
          [\<lparr>row_id = ''y1'', row_flds = [(''name'', VStr ''Stanton''), (''code'', VStr ''ST'')]\<rparr>],
        ''moons'' \<mapsto>
          [\<lparr>row_id = ''m1'', row_flds = [(''name'', VStr ''Yela''), (''code'', VStr ''YELA'')]\<rparr>,
           \<lparr>row_id = ''m2'', row_flds = [(''name'', VStr ''Cellin''), (''code'', VStr ''CELLIN'')]\<rparr>],
        ''space_stations'' \<mapsto>
          [\<lparr>row_id = ''t1'', row_flds = [(''name'', VStr ''Port''), (''moon'', VStr ''m2'')]\<rparr>])\<rparr>"

text \<open>A commodity that passes the filters and whose illegal field is 2.\<close>

definition flagged :: Commodity where
  "flagged = gold_ore\<lparr>c_IsIllegal := 2\<rparr>"

text \<open>A store with the star system and the moon that \<open>port\<close> names, and no station.\<close>

definition no_station_store :: app where
  "no_station_store = port_store\<lparr>db := (db port_store)(''space_stations'' \<mapsto> [])\<rparr>"

text \<open>
  A store in which the star system with the code of \<open>stanton\<close> exists under another
  name, with another jurisdiction and without a faction.
\<close>

definition stale_system_store :: app where
  "stale_system_store =
     empty_store\<lparr>db := (db empty_store)(''star_systems'' \<mapsto>
        [\<lparr>row_id = ''y1'',
          row_flds = [(''name'', VStr ''Stanton I''), (''code'', VStr ''ST''),
                      (''jurisdiction'', VStr ''None'')]\<rparr>])\<rparr>"

text \<open>
  For counting requests: the URL of the request for one kind and one system; an
  environment that accepts every URL and answers every request for planets, moons and
  space stations with a decodable body and status 200; two states with the same
  collections and the same requests so far; a state reached from another by the given
  requests, with the same collections.
\<close>

definition kind_url :: "string \<Rightarrow> string \<Rightarrow> StarSystem \<Rightarrow> string" where
  "kind_url uexApiUrl kind system =
     uexApiUrl @ ''/'' @ kind @ ''?id_star_system='' @ fmt_d (sint (s_UexID system))"

definition answers_all :: "env \<Rightarrow> bool" where
  "answers_all E \<longleftrightarrow>
     (\<forall>u. \<not> bad_url E u) \<and> (\<forall>r. decoded (planets_api E r) \<noteq> None) \<and>
     (\<forall>r. decoded (moons_api E r) \<noteq> None) \<and> (\<forall>r. decoded (space_stations_api E r) \<noteq> None)"

definition calm :: "app \<Rightarrow> app \<Rightarrow> bool" where
  "calm s s' \<longleftrightarrow> dom (db s') = dom (db s) \<and> requested (trace s') = requested (trace s)"

definition after :: "app \<Rightarrow> string list \<Rightarrow> app \<Rightarrow> bool" where
  "after s urls s' \<longleftrightarrow>
     dom (db s') = dom (db s) \<and> requested (trace s') = requested (trace s) @ urls"

section \<open>Evaluation and the loops\<close>

lemma digits_small [simp]: "n < 10 \<Longrightarrow> digits n = [''0123456789'' ! n]"
  by (simp add: digits.simps)

lemma digits_large [simp]:
  "\<not> n < 10 \<Longrightarrow> digits n = digits (n div 10) @ [''0123456789'' ! (n mod 10)]"
  by (subst digits.simps) simp

lemmas string_defs = ContainsIgnoreCase_def ToLower_def lower_char_def fmt_d_def

lemmas store_defs =
  log_event_def FindCollectionByNameOrId_def FindFirstRecordByData_def first_row_def
  as_record_def FindAllRecords_def Save_def RunInTransaction_def Set_rec_def NewRecord_def
  field_of_def Get_rec_def

lemmas commodity_defs =
  UpdateCommodities_def commodities_sync_def commodity_step_def decoded_def
  viper_Get_string_def std_headers_def ConvertToBool_def

lemmas input_defs =
  quiet_env_def serving_commodities_def both_settings_def empty_store_def odd_flag_def
  unlisted_def gold_ore_def raw_ore_def yela_def port_def two_goods_def new_outpost_def
  stock_5_to_8_def stock_1_to_1e16_def refusing_second_def refusing_changes_def stanton_def pyro_def
  serving_systems_def only_url_def port_store_def flagged_def no_station_store_def

lemmas system_defs =
  UpdateStarSystems_def star_systems_sync_def planets_of_system_def moons_of_system_def
  stations_of_system_def system_step_def planet_step_def planet_fields_def moon_step_def
  moon_fields_def station_step_def station_parents_def station_fields_def Set_Id_def
  decoded_def viper_Get_string_def std_headers_def ConvertToBool_def

lemmas hook_defs =
  CreateOutpostCommodities_def outpost_commodities_tx_def outpost_commodity_step_def
  outpostCommodity_def CreateCommodityChanges_def commodity_changes_tx_def
  commodityChangeRecord_def GetFloat_def

lemma for_each_append:
  "for_each f (xs @ ys) s =
     (case for_each f xs s of (None, s') \<Rightarrow> for_each f ys s' | (Some e, s') \<Rightarrow> (Some e, s'))"
  by (induction xs arbitrary: s) (auto split: prod.splits option.splits)

lemma for_each_skip:
  assumes "\<And>s. f c s = (None, s)"
  shows "for_each f (xs @ c # ys) s = for_each f (xs @ ys) s"
  by (simp add: for_each_append assms split: prod.splits option.splits)

lemma Save_commodities_api [simp]: "Save (E\<lparr>commodities_api := f\<rparr>) = Save E"
  by (simp add: Save_def fun_eq_iff split: option.splits)

lemma commodity_step_commodities_api [simp]:
  "commodity_step (E\<lparr>commodities_api := f\<rparr>) = commodity_step E"
  unfolding commodity_step_def Save_commodities_api by (rule refl)

lemma commodity_step_skip:
  "c_IsAvailableLive c = 0 \<or> c_IsTemporary c = 1 \<or> c_IsSellable c = 0 \<Longrightarrow>
   commodity_step E collection c s = (None, s)"
  by (simp add: commodity_step_def)

section \<open>Commodities that are not written\<close>

text \<open>
  C5, as the code has it. A commodity whose available-live field is 0, or whose
  temporary field is 1, or whose sellable field is 0 is never written: whatever the
  configuration, the environment, the store and the rest of the upstream list, the
  run ends in the state it ends in when the commodity is not in the list at all.
\<close>

theorem raw_flag_commodity_never_written:
  assumes "c_IsAvailableLive c = 0 \<or> c_IsTemporary c = 1 \<or> c_IsSellable c = 0"
  shows "UpdateCommodities cfg (E\<lparr>commodities_api := \<lambda>r. Reply 200 (Some (xs @ c # ys))\<rparr>) s =
         UpdateCommodities cfg (E\<lparr>commodities_api := \<lambda>r. Reply 200 (Some (xs @ ys))\<rparr>) s"
proof -
  have "for_each (commodity_step E collection) (xs @ c # ys) =
        for_each (commodity_step E collection) (xs @ ys)" for collection
    by (rule ext, rule for_each_skip) (simp add: commodity_step_skip assms)
  then show ?thesis
    by (simp add: UpdateCommodities_def commodities_sync_def decoded_def
        split: prod.splits option.splits)
qed

theorem raw_flag_commodity_never_written_witness:
  "c_IsAvailableLive unlisted = 0 \<and>
   db (UpdateCommodities both_settings (serving_commodities [unlisted]) empty_store)
      ''commodities'' = Some []"
proof -
  have flag: "c_IsAvailableLive unlisted = 0 \<or> c_IsTemporary unlisted = 1 \<or>
              c_IsSellable unlisted = 0"
    by (simp add: input_defs)
  have "UpdateCommodities both_settings (serving_commodities ([] @ unlisted # [])) empty_store =
        UpdateCommodities both_settings (serving_commodities ([] @ [])) empty_store"
    unfolding serving_commodities_def
    by (rule raw_flag_commodity_never_written [OF flag])
  moreover have "db (UpdateCommodities both_settings (serving_commodities []) empty_store)
                   ''commodities'' = Some []"
    by (simp add: commodity_defs store_defs input_defs)
  ultimately show ?thesis
    by (simp add: unlisted_def)
qed

text \<open>
  C5, as the claim reads the flags (1 is true, anything else is false): the
  available-live flag of \<open>odd_flag\<close> is false, and the commodity is written.
\<close>

theorem false_flag_commodity_written:
  "\<not> ConvertToBool (c_IsAvailableLive odd_flag) \<and>
   db (UpdateCommodities both_settings (serving_commodities [odd_flag]) empty_store)
      ''commodities'' =
     Some [\<lparr>row_id = ''r0'',
            row_flds = [(''name'', VStr ''Gold Ore''), (''code'', VStr ''GOLD''),
                        (''type'', VStr ''Ore''), (''price_buy'', VFloat 0),
                        (''price_sell'', VFloat 5), (''is_illegal'', VBool False)]\<rparr>]"
  by (simp add: commodity_defs store_defs input_defs string_defs)

section \<open>Records, lookups and saves\<close>

lemma Set_rec_sel [simp]:
  "coll_of (Set_rec k v r) = coll_of r" "is_new (Set_rec k v r) = is_new r"
  "rec_Id (Set_rec k v r) = rec_Id r" "flds (Set_rec k v r) = put_field k v (flds r)"
  by (simp_all add: Set_rec_def)

lemma NewRecord_sel [simp]:
  "coll_of (NewRecord c) = c" "is_new (NewRecord c)" "rec_Id (NewRecord c) = []"
  "flds (NewRecord c) = []"
  by (simp_all add: NewRecord_def)

lemma Set_Id_sel [simp]:
  "coll_of (Set_Id k p r) = coll_of r" "is_new (Set_Id k p r) = is_new r"
  "rec_Id (Set_Id k p r) = rec_Id r"
  by (simp_all add: Set_Id_def split: option.splits)

lemma station_fields_sel [simp]:
  "coll_of (station_fields t y p m r) = coll_of r"
  "is_new (station_fields t y p m r) = is_new r"
  "rec_Id (station_fields t y p m r) = rec_Id r"
  by (simp_all add: station_fields_def)

lemma field_of_put_field [simp]:
  "field_of (put_field k v fs) k' = (if k' = k then v else field_of fs k')"
  by (induction fs) (auto simp: field_of_def)

lemma find_append_new:
  "find P rows = None \<Longrightarrow> P y \<Longrightarrow> find P (rows @ [y]) = Some y"
  by (induction rows) (auto split: if_splits)

lemma find_map_replace:
  "find P rows = Some x \<Longrightarrow> P y \<Longrightarrow>
   find P (map (\<lambda>r. if row_id r = row_id x then y else r) rows) = Some y"
  by (induction rows) (auto split: if_splits)

lemma Save_other_collection:
  "Save E r s = (res, s') \<Longrightarrow> k \<noteq> coll_of r \<Longrightarrow> db s' k = db s k"
  by (auto simp: Save_def split: if_splits option.splits)

lemma Find_coll_of:
  "FindFirstRecordByData c k v s = (Some r, s') \<Longrightarrow> coll_of r = c"
  by (auto simp: FindFirstRecordByData_def as_record_def)

lemma Find_db: "FindFirstRecordByData c k v s = (r, s') \<Longrightarrow> db s' = db s"
  by (auto simp: FindFirstRecordByData_def log_event_def)

lemma RunInTransaction_error:
  "fst (body s) \<noteq> None \<Longrightarrow>
   fst (RunInTransaction body s) = fst (body s) \<and> db (snd (RunInTransaction body s)) = db s"
  by (auto simp: RunInTransaction_def log_event_def split: prod.splits option.splits)

section \<open>The stored type of a commodity\<close>



section \<open>Missing parents\<close>

lemma station_parents_db: "station_parents t s = (r, s') \<Longrightarrow> db s' = db s"
  by (auto simp: station_parents_def dest!: Find_db split: if_splits prod.splits)

lemma station_step_star_systems:
  assumes "station_step E ''space_stations'' t s = (res, s')"
  shows "db s' ''star_systems'' = db s ''star_systems''"
proof -
  obtain y s1 where f1:
      "FindFirstRecordByData ''star_systems'' ''name'' (t_StarSystemName t) s = (y, s1)"
    by (cases "FindFirstRecordByData ''star_systems'' ''name'' (t_StarSystemName t) s")
  obtain p m s2 where f2: "station_parents t s1 = ((p, m), s2)"
    by (cases "station_parents t s1") auto
  obtain x s3 where f3:
      "FindFirstRecordByData ''space_stations'' ''name'' (t_Name t) s2 = (x, s3)"
    by (cases "FindFirstRecordByData ''space_stations'' ''name'' (t_Name t) s2")
  have d: "db s1 = db s" "db s2 = db s1" "db s3 = db s2"
    using Find_db [OF f1] station_parents_db [OF f2] Find_db [OF f3] by simp_all
  show ?thesis
  proof (cases y)
    case None
    with assms f1 d show ?thesis
      by (simp add: station_step_def)
  next
    case sys: (Some existingStarSystem)
    show ?thesis
    proof (cases x)
      case None
      with assms f1 f2 f3 sys
      have "Save E (station_fields t existingStarSystem p m (NewRecord ''space_stations'')) s3 =
            (res, s')"
        by (simp add: station_step_def)
      from Save_other_collection [OF this, of "''star_systems''"] d show ?thesis
        by simp
    next
      case (Some existingSpaceStation)
      with assms f1 f2 f3 sys
      have "Save E (station_fields t existingStarSystem p m existingSpaceStation) s3 = (res, s')"
        by (simp add: station_step_def)
      from Save_other_collection [OF this, of "''star_systems''"] d
        Find_coll_of [OF f3 [unfolded Some]]
      show ?thesis
        by simp
    qed
  qed
qed

lemma station_step_no_system:
  "first_row (db s) ''star_systems'' ''name'' (t_StarSystemName t) = None \<Longrightarrow>
   fst (station_step E c t s) = Some NotFound"
  by (simp add: station_step_def FindFirstRecordByData_def)

lemma station_loop_no_system:
  assumes "t \<in> set data"
    and "first_row (db s) ''star_systems'' ''name'' (t_StarSystemName t) = None"
  shows "fst (for_each (station_step E ''space_stations'') data s) \<noteq> None"
  using assms
proof (induction data arbitrary: s)
  case Nil
  then show ?case by simp
next
  case (Cons x data)
  obtain res s1 where step: "station_step E ''space_stations'' x s = (res, s1)"
    by (cases "station_step E ''space_stations'' x s")
  show ?case
  proof (cases res)
    case (Some e)
    with step show ?thesis by simp
  next
    case None
    have same: "first_row (db s1) ''star_systems'' ''name'' (t_StarSystemName t) = None"
      using Cons.prems(2) station_step_star_systems [OF step]
      by (simp add: first_row_def)
    have "t \<noteq> x"
      using station_step_no_system [OF Cons.prems(2), of E "''space_stations''"] step None
      by auto
    with Cons.prems(1) have "t \<in> set data" by simp
    from Cons.IH [OF this same] step None show ?thesis by simp
  qed
qed

text \<open>
  C7. A moon whose planet is not found by name: the turn of the loop does nothing but
  the failed lookup, creates no row, returns no error, and the loop goes on with the
  rest of the batch from the same store. A batch of space stations one of which names a
  star system that is not found: the transaction returns an error and the store is as
  it was before the transaction, whatever the other stations of the batch are.
\<close>

theorem missing_parent_moon_skipped_station_aborts:
  "(first_row (db s) ''planets'' ''name'' (m_PlanetName moon) = None \<longrightarrow>
      for_each (moon_step E moonsCollection) (moon # rest) s =
      for_each (moon_step E moonsCollection) rest
        (log_event (Find ''planets'' ''name'' (m_PlanetName moon)) s)) \<and>
   (spaceStation \<in> set data \<and>
    first_row (db s) ''star_systems'' ''name'' (t_StarSystemName spaceStation) = None \<longrightarrow>
      fst (RunInTransaction (for_each (station_step E ''space_stations'') data) s) \<noteq> None \<and>
      db (snd (RunInTransaction (for_each (station_step E ''space_stations'') data) s)) = db s)"
proof (intro conjI impI)
  assume "first_row (db s) ''planets'' ''name'' (m_PlanetName moon) = None"
  then show "for_each (moon_step E moonsCollection) (moon # rest) s =
      for_each (moon_step E moonsCollection) rest
        (log_event (Find ''planets'' ''name'' (m_PlanetName moon)) s)"
    by (simp add: moon_step_def FindFirstRecordByData_def)
next
  assume a: "spaceStation \<in> set data \<and>
    first_row (db s) ''star_systems'' ''name'' (t_StarSystemName spaceStation) = None"
  then have err: "fst (for_each (station_step E ''space_stations'') data s) \<noteq> None"
    using station_loop_no_system by blast
  from RunInTransaction_error [of "for_each (station_step E ''space_stations'') data" s, OF err]
  show "fst (RunInTransaction (for_each (station_step E ''space_stations'') data) s) \<noteq> None"
    using err by simp
  from RunInTransaction_error [of "for_each (station_step E ''space_stations'') data" s, OF err]
  show "db (snd (RunInTransaction (for_each (station_step E ''space_stations'') data) s)) = db s"
    by simp
qed

theorem missing_parent_moon_skipped_station_aborts_witness:
  "first_row (db empty_store) ''planets'' ''name'' (m_PlanetName yela) = None \<and>
   for_each (moon_step quiet_env ''moons'') [yela] empty_store =
     (None, log_event (Find ''planets'' ''name'' ''Crusader'') empty_store) \<and>
   port \<in> set [port] \<and>
   first_row (db empty_store) ''star_systems'' ''name'' (t_StarSystemName port) = None \<and>
   fst (RunInTransaction (for_each (station_step quiet_env ''space_stations'') [port])
          empty_store) \<noteq> None \<and>
   db (snd (RunInTransaction (for_each (station_step quiet_env ''space_stations'') [port])
          empty_store)) = db empty_store"
proof -
  have no_planet: "first_row (db empty_store) ''planets'' ''name'' (m_PlanetName yela) = None"
    by (simp add: first_row_def empty_store_def)
  have no_system:
    "first_row (db empty_store) ''star_systems'' ''name'' (t_StarSystemName port) = None"
    by (simp add: first_row_def empty_store_def)
  have name: "m_PlanetName yela = ''Crusader''"
    by (simp add: yela_def)
  from missing_parent_moon_skipped_station_aborts
         [of empty_store yela quiet_env "''moons''" "[]" port "[port]"]
       no_planet no_system name
  show ?thesis by simp
qed

section \<open>What the hooks write\<close>

lemma Save_trace: "Save E r s = (res, s') \<Longrightarrow> trace s' = trace s"
  by (auto simp: Save_def split: if_splits option.splits)

lemma for_each_trace:
  assumes "\<And>x s res s'. f x s = (res, s') \<Longrightarrow> trace s' = trace s"
  shows "for_each f xs s = (res, s') \<Longrightarrow> trace s' = trace s"
proof (induction xs arbitrary: s)
  case Nil
  then show ?case by simp
next
  case (Cons x xs)
  obtain r1 s1 where st: "f x s = (r1, s1)" by (cases "f x s")
  with Cons assms [OF st] show ?case
    by (cases r1) auto
qed

lemma RunInTransaction_ok:
  "body s = (None, s') \<Longrightarrow> db (snd (RunInTransaction body s)) = db s'"
  by (simp add: RunInTransaction_def log_event_def)

lemma RunInTransaction_trace:
  "body s = (res, s') \<Longrightarrow> trace s' = trace s \<Longrightarrow>
   \<exists>b. trace (snd (RunInTransaction body s)) = trace s @ [Tx b]"
  by (cases res) (auto simp: RunInTransaction_def log_event_def)

lemma outpostCommodity_literal:
  "outpostCommodity e c x =
     \<lparr>coll_of = c, is_new = True, rec_Id = [],
      flds = [(''outpost'', VStr (rec_Id (Record e))), (''commodity'', VStr (rec_Id x)),
              (''amount'', VInt 0)]\<rparr>"
  by (simp add: outpostCommodity_def Set_rec_def NewRecord_def)

lemma outpost_commodity_step_trace:
  "outpost_commodity_step E e c x s = (res, s') \<Longrightarrow> trace s' = trace s"
  by (auto simp: outpost_commodity_step_def dest: Save_trace)

lemma outpost_loop_rows:
  assumes "for_each (outpost_commodity_step E e c) cs s = (None, s')"
    and "db s c = Some ocs"
  shows "\<exists>new. db s' = (db s)(c \<mapsto> ocs @ new) \<and>
           map row_flds new = map (\<lambda>x. flds (outpostCommodity e c x)) cs"
  using assms
proof (induction cs arbitrary: s ocs)
  case Nil
  then show ?case by (auto simp: fun_upd_idem)
next
  case (Cons x cs)
  let ?fs = "flds (outpostCommodity e c x)"
  obtain r1 s1 where st: "outpost_commodity_step E e c x s = (r1, s1)"
    by (cases "outpost_commodity_step E e c x s")
  with Cons.prems(1) have r1: "r1 = None"
    and rest: "for_each (outpost_commodity_step E e c) cs s1 = (None, s')"
    by (cases r1; simp)+
  from st r1 Cons.prems(2) obtain i where
    s1: "db s1 = (db s)(c \<mapsto> ocs @ [\<lparr>row_id = i, row_flds = ?fs\<rparr>])"
    by (auto simp: outpost_commodity_step_def Save_def outpostCommodity_literal
        split: if_splits)
  then have "db s1 c = Some (ocs @ [\<lparr>row_id = i, row_flds = ?fs\<rparr>])"
    by simp
  from Cons.IH [OF rest this] obtain new where
    "db s' = (db s1)(c \<mapsto> (ocs @ [\<lparr>row_id = i, row_flds = ?fs\<rparr>]) @ new)"
    "map row_flds new = map (\<lambda>x. flds (outpostCommodity e c x)) cs"
    by blast
  with s1 show ?case
    by (intro exI [of _ "\<lparr>row_id = i, row_flds = ?fs\<rparr> # new"]) simp
qed

lemma outpost_loop_rejected:
  assumes "x \<in> set cs"
    and "\<And>d. save_fails E d (outpostCommodity e c x)"
  shows "fst (for_each (outpost_commodity_step E e c) cs s) \<noteq> None"
  using assms(1)
proof (induction cs arbitrary: s)
  case Nil
  then show ?case by simp
next
  case (Cons y cs)
  obtain r1 s1 where st: "outpost_commodity_step E e c y s = (r1, s1)"
    by (cases "outpost_commodity_step E e c y s")
  show ?case
  proof (cases r1)
    case (Some err)
    with st show ?thesis by simp
  next
    case None
    have "x \<noteq> y"
    proof
      assume "x = y"
      with st None assms(2) [of "db s"] show False
        by (simp add: outpost_commodity_step_def Save_def)
    qed
    with Cons.prems have "x \<in> set cs" by simp
    from Cons.IH [OF this, of s1] st None show ?thesis by simp
  qed
qed

lemma outpost_commodities_tx_trace:
  "outpost_commodities_tx E e s = (res, s') \<Longrightarrow> trace s' = trace s"
  by (auto simp: outpost_commodities_tx_def split: option.splits
      dest: for_each_trace [OF outpost_commodity_step_trace, rotated])

text \<open>
  C8. The hook runs one transaction and nothing else. When its body returns no error,
  the collection of stock rows is the old one followed by one new row for each row of
  the commodities collection, in order, each holding the identifier of the outpost, the
  identifier of the commodity and the amount 0. When the body returns an error the
  store is as before; and it does return one as soon as the store refuses the stock
  row of some commodity.
\<close>

theorem outpost_created_stock_rows:
  "(fst (outpost_commodities_tx E e s) = None \<longrightarrow>
      (\<exists>ocs cs new.
         db s ''outpost_commodities'' = Some ocs \<and> db s ''commodities'' = Some cs \<and>
         db (CreateOutpostCommodities E e s) = (db s)(''outpost_commodities'' \<mapsto> ocs @ new) \<and>
         map row_flds new =
           map (\<lambda>c. [(''outpost'', VStr (rec_Id (Record e))), (''commodity'', VStr (row_id c)),
                     (''amount'', VInt 0)]) cs)) \<and>
   (fst (outpost_commodities_tx E e s) \<noteq> None \<longrightarrow> db (CreateOutpostCommodities E e s) = db s) \<and>
   (\<forall>cs. db s ''commodities'' = Some cs \<and>
      (\<exists>c \<in> set cs. \<forall>d. save_fails E d
         (outpostCommodity e ''outpost_commodities'' (as_record ''commodities'' c))) \<longrightarrow>
      db (CreateOutpostCommodities E e s) = db s) \<and>
   (\<exists>b. trace (CreateOutpostCommodities E e s) = trace s @ [Tx b])"
proof (intro conjI impI allI)
  assume ok: "fst (outpost_commodities_tx E e s) = None"
  then obtain s' where tx: "outpost_commodities_tx E e s = (None, s')"
    by (cases "outpost_commodities_tx E e s") auto
  then obtain ocs cs where c: "db s ''outpost_commodities'' = Some ocs"
      "db s ''commodities'' = Some cs"
    and loop: "for_each (outpost_commodity_step E e ''outpost_commodities'')
                 (map (as_record ''commodities'') cs) s = (None, s')"
    by (auto simp: outpost_commodities_tx_def FindCollectionByNameOrId_def FindAllRecords_def
        split: option.splits)
  from outpost_loop_rows [OF loop c(1)] obtain new where
    "db s' = (db s)(''outpost_commodities'' \<mapsto> ocs @ new)"
    "map row_flds new =
       map (\<lambda>c. [(''outpost'', VStr (rec_Id (Record e))), (''commodity'', VStr (row_id c)),
                 (''amount'', VInt 0)]) cs"
    by (auto simp: o_def as_record_def outpostCommodity_literal)
  with c RunInTransaction_ok [of "outpost_commodities_tx E e" s s', OF tx]
  show "\<exists>ocs cs new.
         db s ''outpost_commodities'' = Some ocs \<and> db s ''commodities'' = Some cs \<and>
         db (CreateOutpostCommodities E e s) = (db s)(''outpost_commodities'' \<mapsto> ocs @ new) \<and>
         map row_flds new =
           map (\<lambda>c. [(''outpost'', VStr (rec_Id (Record e))), (''commodity'', VStr (row_id c)),
                     (''amount'', VInt 0)]) cs"
    by (auto simp: CreateOutpostCommodities_def)
next
  assume "fst (outpost_commodities_tx E e s) \<noteq> None"
  from RunInTransaction_error [of "outpost_commodities_tx E e" s, OF this]
  show "db (CreateOutpostCommodities E e s) = db s"
    by (simp add: CreateOutpostCommodities_def)
next
  fix cs
  assume a: "db s ''commodities'' = Some cs \<and>
      (\<exists>c \<in> set cs. \<forall>d. save_fails E d
         (outpostCommodity e ''outpost_commodities'' (as_record ''commodities'' c)))"
  then obtain c where c: "c \<in> set cs"
    and rej: "\<And>d. save_fails E d
                (outpostCommodity e ''outpost_commodities'' (as_record ''commodities'' c))"
    by blast
  have "as_record ''commodities'' c \<in> set (map (as_record ''commodities'') cs)"
    using c by simp
  then have "fst (for_each (outpost_commodity_step E e ''outpost_commodities'')
      (map (as_record ''commodities'') cs) s) \<noteq> None"
    using rej by (rule outpost_loop_rejected)
  with a have "fst (outpost_commodities_tx E e s) \<noteq> None"
    by (auto simp: outpost_commodities_tx_def FindCollectionByNameOrId_def FindAllRecords_def
        split: option.splits)
  from RunInTransaction_error [of "outpost_commodities_tx E e" s, OF this]
  show "db (CreateOutpostCommodities E e s) = db s"
    by (simp add: CreateOutpostCommodities_def)
next
  obtain res s' where tx: "outpost_commodities_tx E e s = (res, s')"
    by (cases "outpost_commodities_tx E e s")
  from RunInTransaction_trace [of "outpost_commodities_tx E e" s res s', OF tx
      outpost_commodities_tx_trace [OF tx]]
  show "\<exists>b. trace (CreateOutpostCommodities E e s) = trace s @ [Tx b]"
    by (simp add: CreateOutpostCommodities_def)
qed

theorem outpost_created_stock_rows_witness:
  "fst (outpost_commodities_tx quiet_env new_outpost two_goods) = None \<and>
   (\<exists>new. db (CreateOutpostCommodities quiet_env new_outpost two_goods) =
            (db two_goods)(''outpost_commodities'' \<mapsto> new) \<and>
          map row_flds new =
            [[(''outpost'', VStr ''o1''), (''commodity'', VStr ''c1''), (''amount'', VInt 0)],
             [(''outpost'', VStr ''o1''), (''commodity'', VStr ''c2''), (''amount'', VInt 0)]]) \<and>
   (\<forall>d. save_fails refusing_second d
      (outpostCommodity new_outpost ''outpost_commodities''
         (as_record ''commodities''
            \<lparr>row_id = ''c2'', row_flds = [(''name'', VStr ''Iron''), (''code'', VStr ''IRON'')]\<rparr>))) \<and>
   db (CreateOutpostCommodities refusing_second new_outpost two_goods) = db two_goods"
proof -
  let ?iron = "\<lparr>row_id = ''c2'', row_flds = [(''name'', VStr ''Iron''), (''code'', VStr ''IRON'')]\<rparr>"
  have ok: "fst (outpost_commodities_tx quiet_env new_outpost two_goods) = None"
    by (simp add: hook_defs store_defs input_defs)
  have old: "db two_goods ''outpost_commodities'' = Some []"
    and goods: "db two_goods ''commodities'' =
      Some [\<lparr>row_id = ''c1'', row_flds = [(''name'', VStr ''Gold''), (''code'', VStr ''GOLD'')]\<rparr>,
            ?iron]"
    and outpost: "rec_Id (Record new_outpost) = ''o1''"
    by (simp_all add: input_defs)
  from outpost_created_stock_rows [of quiet_env new_outpost two_goods] ok
  obtain ocs cs new where
    "db two_goods ''outpost_commodities'' = Some ocs" "db two_goods ''commodities'' = Some cs"
    "db (CreateOutpostCommodities quiet_env new_outpost two_goods) =
       (db two_goods)(''outpost_commodities'' \<mapsto> ocs @ new)"
    "map row_flds new =
       map (\<lambda>c. [(''outpost'', VStr (rec_Id (Record new_outpost))),
                 (''commodity'', VStr (row_id c)), (''amount'', VInt 0)]) cs"
    by blast
  with old goods outpost
  have rows: "\<exists>new. db (CreateOutpostCommodities quiet_env new_outpost two_goods) =
            (db two_goods)(''outpost_commodities'' \<mapsto> new) \<and>
          map row_flds new =
            [[(''outpost'', VStr ''o1''), (''commodity'', VStr ''c1''), (''amount'', VInt 0)],
             [(''outpost'', VStr ''o1''), (''commodity'', VStr ''c2''), (''amount'', VInt 0)]]"
    by auto
  have rej: "\<forall>d. save_fails refusing_second d
      (outpostCommodity new_outpost ''outpost_commodities'' (as_record ''commodities'' ?iron))"
    by (simp add: hook_defs store_defs input_defs)
  with goods have "db two_goods ''commodities'' =
      Some [\<lparr>row_id = ''c1'', row_flds = [(''name'', VStr ''Gold''), (''code'', VStr ''GOLD'')]\<rparr>,
            ?iron] \<and>
      (\<exists>c \<in> set [\<lparr>row_id = ''c1'',
                     row_flds = [(''name'', VStr ''Gold''), (''code'', VStr ''GOLD'')]\<rparr>, ?iron].
         \<forall>d. save_fails refusing_second d
           (outpostCommodity new_outpost ''outpost_commodities'' (as_record ''commodities'' c)))"
    by simp
  with outpost_created_stock_rows [of refusing_second new_outpost two_goods]
  have "db (CreateOutpostCommodities refusing_second new_outpost two_goods) = db two_goods"
    by blast
  with ok rows rej show ?thesis
    by blast
qed

subsection \<open>Rounding\<close>

text \<open>
  The exponent is the right one; the rounded magnitude is an integer of at most 53 bits
  (or \<open>2 ^ 53\<close>, the next power of two) times the unit, and is at most half a unit
  away from the exact value; integers of less than 54 bits are not changed, so the
  difference of two whole amounts is exact as long as it has less than 54 bits.
\<close>

lemma bitlen_pos: "0 < x \<Longrightarrow> bitlen x = bitlen (x div 2) + 1"
  by (subst compute_bitlen) simp

lemma bitlen_nonpos: "x \<le> 0 \<Longrightarrow> bitlen x = 0"
  by (subst compute_bitlen) simp

lemma powi_nonneg: "0 \<le> e \<Longrightarrow> (2::real) powi e = 2 ^ nat e"
  by (simp add: power_int_def)

lemma powi_neg: "e < 0 \<Longrightarrow> (2::real) powi e = 1 / 2 ^ nat (- e)"
  by (simp add: power_int_def power_one_over inverse_eq_divide)

lemmas f64_defs =
  round_f64_def ulp_of_def ilog2_def rne_def powi_nonneg powi_neg bitlen_pos bitlen_nonpos Let_def

lemma ilog2_bounds:
  assumes "0 < a"
  shows "2 powi ilog2 a \<le> a \<and> a < 2 powi (ilog2 a + 1)"
proof (cases "1 \<le> a")
  case True
  let ?n = "\<lfloor>a\<rfloor>"
  from True have n: "0 < ?n" by simp
  from bitlen_bounds [OF n] have b: "2 ^ nat (bitlen ?n - 1) \<le> ?n" "?n < 2 ^ nat (bitlen ?n)"
    by simp_all
  from n have bl: "1 \<le> bitlen ?n" by (simp add: bitlen_alt_def)
  have "real_of_int (2 ^ nat (bitlen ?n - 1)) \<le> real_of_int ?n"
    using b(1) by (simp only: of_int_le_iff)
  also have "\<dots> \<le> a" by simp
  finally have lo: "2 powi (bitlen ?n - 1) \<le> a"
    using bl by (simp add: power_int_def)
  from b(2) have "?n + 1 \<le> 2 ^ nat (bitlen ?n)" by simp
  then have "real_of_int (?n + 1) \<le> real_of_int (2 ^ nat (bitlen ?n))"
    by (simp only: of_int_le_iff)
  then have "real_of_int ?n + 1 \<le> 2 ^ nat (bitlen ?n)" by simp
  moreover have "a < real_of_int ?n + 1" by linarith
  ultimately have "a < 2 ^ nat (bitlen ?n)" by linarith
  then have hi: "a < 2 powi (bitlen ?n)"
    using bl by (simp add: power_int_def)
  from True lo hi show ?thesis by (simp add: ilog2_def)
next
  case False
  let ?y = "1 / a"
  let ?n = "\<lfloor>?y\<rfloor>"
  let ?k = "bitlen ?n - 1"
  from False assms have y: "1 < ?y" by simp
  then have n: "0 < ?n" by simp
  from bitlen_bounds [OF n] have b: "2 ^ nat ?k \<le> ?n" "?n < 2 ^ nat (bitlen ?n)"
    by simp_all
  from n have bl: "0 \<le> ?k" by (simp add: bitlen_alt_def)
  have "real_of_int (2 ^ nat ?k) \<le> real_of_int ?n"
    using b(1) by (simp only: of_int_le_iff)
  also have "\<dots> \<le> ?y" by simp
  finally have "2 ^ nat ?k \<le> 1 / a" by simp
  with assms have up: "a * 2 ^ nat ?k \<le> 1"
    by (simp add: field_simps)
  from b(2) have "?n + 1 \<le> 2 ^ nat (bitlen ?n)" by simp
  then have "real_of_int (?n + 1) \<le> real_of_int (2 ^ nat (bitlen ?n))"
    by (simp only: of_int_le_iff)
  then have "real_of_int ?n + 1 \<le> 2 ^ nat (bitlen ?n)" by simp
  moreover have "?y < real_of_int ?n + 1" by linarith
  ultimately have "1 / a < 2 ^ nat (bitlen ?n)" by linarith
  moreover have "nat (bitlen ?n) = Suc (nat ?k)" using bl by simp
  ultimately have "1 / a < 2 * 2 ^ nat ?k" by simp
  with assms have low: "1 < a * (2 * 2 ^ nat ?k)"
    by (simp add: field_simps)
  show ?thesis
  proof (cases "a * 2 powi ?k = 1")
    case True
    with bl have eq: "a * 2 ^ nat ?k = 1" by (simp add: power_int_def)
    then have a: "a = 1 / 2 ^ nat ?k" by (simp add: field_simps)
    from eq False have "?k \<noteq> 0" by auto
    with bl have kp: "0 < ?k" by simp
    have "(2::real) powi (- ?k) = 1 / 2 ^ nat ?k"
      using kp by (simp add: powi_neg)
    with a have "2 powi (- ?k) = a"
      by simp
    moreover have "a < 2 powi (- ?k + 1)"
    proof -
      have "(2::real) powi (- ?k + 1) = 2 powi (- ?k) * 2 powi 1"
        by (rule power_int_add) simp
      then have "2 powi (- ?k + 1) = 2 * (2::real) powi (- ?k)"
        by simp
      with \<open>2 powi (- ?k) = a\<close> assms show ?thesis by simp
    qed
    ultimately show ?thesis using False True by (simp add: ilog2_def Let_def)
  next
    case ne: False
    with bl have neq: "a * 2 ^ nat ?k \<noteq> 1" by (simp add: power_int_def)
    with up have lt: "a * 2 ^ nat ?k < 1" by simp
    have s: "nat (?k + 1) = Suc (nat ?k)"
      using bl by simp
    have "(2::real) powi (- ?k - 1) = 1 / 2 ^ nat (?k + 1)"
      using bl powi_neg [of "- ?k - 1"] by simp
    then have p1: "(2::real) powi (- ?k - 1) = 1 / (2 * 2 ^ nat ?k)"
      by (simp only: s power_Suc)
    have p2: "(2::real) powi (- ?k - 1 + 1) = 1 / 2 ^ nat ?k"
    proof (cases "?k = 0")
      case True
      then show ?thesis by simp
    next
      case False
      with bl have "- ?k < 0" by simp
      from powi_neg [OF this] show ?thesis by simp
    qed
    from low have "1 / (2 * 2 ^ nat ?k) < a" by (simp add: field_simps)
    moreover from lt have "a < 1 / 2 ^ nat ?k" by (simp add: field_simps)
    ultimately show ?thesis using False ne p1 p2 by (simp add: ilog2_def Let_def)
  qed
qed

lemma rne_nearest: "\<bar>of_int (rne x) - x\<bar> \<le> 1 / 2"
  by (auto simp: rne_def Let_def)

lemma rne_of_int [simp]: "rne (of_int m) = m"
  by (simp add: rne_def)

lemma ulp_of_pos: "0 < ulp_of a"
  by (simp add: ulp_of_def)

lemma below_ulp_grid:
  assumes "0 < a"
  shows "a / ulp_of a < 2 ^ 53"
proof -
  let ?E = "max (ilog2 a) (- 1022)"
  have "a < 2 powi (ilog2 a + 1)"
    using ilog2_bounds [OF assms] by simp
  also have "\<dots> \<le> 2 powi (?E + 1)"
    by (rule power_int_increasing) simp_all
  also have "\<dots> = 2 powi (?E - 52) * 2 powi 53"
    using power_int_add [of "2::real" "?E - 52" 53] by (simp add: algebra_simps)
  finally have "a < ulp_of a * 2 ^ 53"
    by (simp add: ulp_of_def)
  with ulp_of_pos [of a] show ?thesis
    by (simp add: field_simps)
qed

lemma rne_bounds:
  assumes "0 \<le> x" "x < of_int n"
  shows "0 \<le> rne x \<and> rne x \<le> n"
proof -
  from assms have "0 \<le> \<lfloor>x\<rfloor>" "\<lfloor>x\<rfloor> < n"
    by (simp_all add: floor_less_iff)
  then show ?thesis
    by (auto simp: rne_def Let_def)
qed

lemma round_f64_grid:
  assumes "x \<noteq> 0"
  shows "0 \<le> rne (\<bar>x\<bar> / ulp_of \<bar>x\<bar>) \<and> rne (\<bar>x\<bar> / ulp_of \<bar>x\<bar>) \<le> 2 ^ 53 \<and>
         \<bar>of_int (rne (\<bar>x\<bar> / ulp_of \<bar>x\<bar>)) * ulp_of \<bar>x\<bar> - \<bar>x\<bar>\<bar> \<le> ulp_of \<bar>x\<bar> / 2"
proof -
  let ?a = "\<bar>x\<bar>" and ?u = "ulp_of \<bar>x\<bar>"
  from assms have a: "0 < ?a" by simp
  have u: "0 < ?u" by (rule ulp_of_pos)
  have "?a / ?u < of_int (2 ^ 53)"
    using below_ulp_grid [OF a] by simp
  moreover from a u have "0 \<le> ?a / ?u" by simp
  ultimately have b: "0 \<le> rne (?a / ?u) \<and> rne (?a / ?u) \<le> 2 ^ 53"
    by (rule rne_bounds [rotated])
  have "of_int (rne (?a / ?u)) * ?u - ?a = (of_int (rne (?a / ?u)) - ?a / ?u) * ?u"
    using u by (simp add: field_simps)
  then have "\<bar>of_int (rne (?a / ?u)) * ?u - ?a\<bar> = \<bar>of_int (rne (?a / ?u)) - ?a / ?u\<bar> * \<bar>?u\<bar>"
    by (simp only: abs_mult)
  also have "\<dots> = \<bar>of_int (rne (?a / ?u)) - ?a / ?u\<bar> * ?u"
    using u by simp
  also have "\<dots> \<le> 1 / 2 * ?u"
    using rne_nearest [of "?a / ?u"] u by (intro mult_right_mono) simp_all
  finally show ?thesis
    using b by simp
qed

lemma round_f64_of_int:
  assumes "\<bar>n\<bar> < 2 ^ 53"
  shows "round_f64 (of_int n) = Finite (of_int n)"
proof (cases "n = 0")
  case True
  then show ?thesis by (simp add: round_f64_def)
next
  case False
  let ?m = "\<bar>n\<bar>"
  let ?a = "\<bar>real_of_int n\<bar>"
  from False have m: "0 < ?m" by simp
  then have a1: "1 \<le> ?a" by linarith
  have fl: "\<lfloor>?a\<rfloor> = ?m"
    by (metis floor_of_int of_int_abs)
  from bitlen_bounds [OF m] assms have lt: "(2::int) ^ nat (bitlen ?m - 1) < 2 ^ 53"
    by linarith
  have "(1::int) < 2" by simp
  from power_less_imp_less_exp [OF this lt] have "nat (bitlen ?m - 1) < 53" .
  moreover from m have "1 \<le> bitlen ?m" by (simp add: bitlen_alt_def)
  ultimately have e: "0 \<le> bitlen ?m - 1" "bitlen ?m - 1 \<le> 52"
    by simp_all
  define k where "k = nat (52 - (bitlen ?m - 1))"
  have il: "ilog2 ?a = bitlen ?m - 1"
    using a1 fl by (simp add: ilog2_def)
  with e have "ulp_of ?a = 2 powi (- int k)"
    by (simp add: ulp_of_def k_def max_def)
  then have u: "ulp_of ?a = 1 / 2 ^ k"
    by (simp add: power_int_minus field_simps)
  then have "?a / ulp_of ?a = of_int (?m * 2 ^ k)"
    by simp
  then have "rne (?a / ulp_of ?a) = ?m * 2 ^ k"
    by (simp only: rne_of_int)
  then have r: "of_int (rne (?a / ulp_of ?a)) * ulp_of ?a = ?a"
    using u by simp
  have "?a < 2 ^ 53"
    using assms by (metis of_int_abs of_int_less_numeral_power_cancel_iff)
  also have "\<dots> \<le> (2::real) ^ 1024"
    by (rule power_increasing) simp_all
  finally have "\<not> 2 powi 1024 \<le> ?a"
    by (simp add: powi_nonneg)
  with False r show ?thesis
    by (auto simp: round_f64_def Let_def)
qed

lemma f64_sub_of_int:
  "\<bar>a - b\<bar> < 2 ^ 53 \<Longrightarrow>
   f64_sub (Finite (of_int a)) (Finite (of_int b)) = Finite (of_int (a - b))"
  using round_f64_of_int [of "a - b"] by simp

lemma f64_sub_rounds:
  "f64_sub (Finite 10000000000000000) (Finite 1) = Finite 10000000000000000"
  by (simp add: f64_defs)

lemma f64_sub_overflows: "f64_sub (Finite (2 ^ 1023)) (Finite (- (2 ^ 1023))) = PosInf"
  by (simp add: f64_defs)


subsection \<open>The change row\<close>

lemma commodityChangeRecord_literal:
  "commodityChangeRecord E e c =
     \<lparr>coll_of = c, is_new = True, rec_Id = [],
      flds = [(''outpost_commodity'', VStr (rec_Id (Record e))),
              (''commodity'', Get_rec (Record e) ''commodity''),
              (''change_amount'',
               val_of_f64 (f64_sub (GetFloat E (Record e) ''amount'')
                                    (GetFloat E (Original e) ''amount'')))]\<rparr>"
  by (simp add: commodityChangeRecord_def Let_def Set_rec_def NewRecord_def)

lemma commodity_changes_tx_Save:
  "db s ''commodity_changes'' = Some rows \<Longrightarrow>
   commodity_changes_tx E e s = Save E (commodityChangeRecord E e ''commodity_changes'') s"
  by (simp add: commodity_changes_tx_def FindCollectionByNameOrId_def)

lemma commodity_changes_tx_trace:
  "commodity_changes_tx E e s = (res, s') \<Longrightarrow> trace s' = trace s"
  by (auto simp: commodity_changes_tx_def split: option.splits dest: Save_trace)

text \<open>
  C9. The hook runs one transaction and nothing else. When its body returns no error,
  the collection of change rows is the old one followed by one new row, which holds the
  identifier of the updated stock row, the commodity of that row, and as change amount
  the amount of the record minus the amount of its snapshot, both read as
  \<^verbatim>\<open>float64\<close> and subtracted as Go subtracts them. When the body returns an error
  the store is as before; and it does return one when the store refuses the change
  row.
\<close>

theorem stock_update_change_row:
  "(fst (commodity_changes_tx E e s) = None \<longrightarrow>
      (\<exists>rows i.
         db s ''commodity_changes'' = Some rows \<and>
         db (CreateCommodityChanges E e s) =
           (db s)(''commodity_changes'' \<mapsto> rows @
             [\<lparr>row_id = i,
               row_flds =
                 [(''outpost_commodity'', VStr (rec_Id (Record e))),
                  (''commodity'', Get_rec (Record e) ''commodity''),
                  (''change_amount'',
                   val_of_f64 (f64_sub (GetFloat E (Record e) ''amount'')
                                        (GetFloat E (Original e) ''amount'')))]\<rparr>]))) \<and>
   (fst (commodity_changes_tx E e s) \<noteq> None \<longrightarrow> db (CreateCommodityChanges E e s) = db s) \<and>
   (save_fails E (db s) (commodityChangeRecord E e ''commodity_changes'') \<longrightarrow>
      fst (commodity_changes_tx E e s) \<noteq> None \<and> db (CreateCommodityChanges E e s) = db s) \<and>
   (\<exists>b. trace (CreateCommodityChanges E e s) = trace s @ [Tx b])"
proof (intro conjI impI)
  assume ok: "fst (commodity_changes_tx E e s) = None"
  then obtain s' where tx: "commodity_changes_tx E e s = (None, s')"
    by (cases "commodity_changes_tx E e s") auto
  then obtain rows where rows: "db s ''commodity_changes'' = Some rows"
    by (auto simp: commodity_changes_tx_def FindCollectionByNameOrId_def split: option.splits)
  from tx commodity_changes_tx_Save [OF rows, of E e]
  have "Save E (commodityChangeRecord E e ''commodity_changes'') s = (None, s')" by simp
  with rows obtain i where
    "db s' = (db s)(''commodity_changes'' \<mapsto> rows @
       [\<lparr>row_id = i, row_flds = flds (commodityChangeRecord E e ''commodity_changes'')\<rparr>])"
    by (auto simp: Save_def commodityChangeRecord_literal split: if_splits)
  with rows RunInTransaction_ok [of "commodity_changes_tx E e" s s', OF tx]
  show "\<exists>rows i.
         db s ''commodity_changes'' = Some rows \<and>
         db (CreateCommodityChanges E e s) =
           (db s)(''commodity_changes'' \<mapsto> rows @
             [\<lparr>row_id = i,
               row_flds =
                 [(''outpost_commodity'', VStr (rec_Id (Record e))),
                  (''commodity'', Get_rec (Record e) ''commodity''),
                  (''change_amount'',
                   val_of_f64 (f64_sub (GetFloat E (Record e) ''amount'')
                                        (GetFloat E (Original e) ''amount'')))]\<rparr>])"
    by (auto simp: CreateCommodityChanges_def commodityChangeRecord_literal)
next
  assume "fst (commodity_changes_tx E e s) \<noteq> None"
  from RunInTransaction_error [of "commodity_changes_tx E e" s, OF this]
  show "db (CreateCommodityChanges E e s) = db s"
    by (simp add: CreateCommodityChanges_def)
next
  assume rej: "save_fails E (db s) (commodityChangeRecord E e ''commodity_changes'')"
  show err: "fst (commodity_changes_tx E e s) \<noteq> None"
  proof (cases "db s ''commodity_changes''")
    case None
    then show ?thesis
      by (simp add: commodity_changes_tx_def FindCollectionByNameOrId_def)
  next
    case (Some rows)
    from commodity_changes_tx_Save [OF Some, of E e] rej show ?thesis
      by (simp add: Save_def)
  qed
  from RunInTransaction_error [of "commodity_changes_tx E e" s, OF err]
  show "db (CreateCommodityChanges E e s) = db s"
    by (simp add: CreateCommodityChanges_def)
next
  obtain res s' where tx: "commodity_changes_tx E e s = (res, s')"
    by (cases "commodity_changes_tx E e s")
  from RunInTransaction_trace [of "commodity_changes_tx E e" s res s', OF tx
      commodity_changes_tx_trace [OF tx]]
  show "\<exists>b. trace (CreateCommodityChanges E e s) = trace s @ [Tx b]"
    by (simp add: CreateCommodityChanges_def)
qed

theorem stock_update_change_row_witness:
  "fst (commodity_changes_tx quiet_env stock_5_to_8 empty_store) = None \<and>
   (\<exists>i. db (CreateCommodityChanges quiet_env stock_5_to_8 empty_store) =
          (db empty_store)(''commodity_changes'' \<mapsto>
            [\<lparr>row_id = i,
              row_flds = [(''outpost_commodity'', VStr ''oc1''), (''commodity'', VStr ''c1''),
                          (''change_amount'', VFloat 3)]\<rparr>])) \<and>
   fst (commodity_changes_tx quiet_env stock_1_to_1e16 empty_store) = None \<and>
   (\<exists>i. db (CreateCommodityChanges quiet_env stock_1_to_1e16 empty_store) =
          (db empty_store)(''commodity_changes'' \<mapsto>
            [\<lparr>row_id = i,
              row_flds = [(''outpost_commodity'', VStr ''oc1''), (''commodity'', VStr ''c1''),
                          (''change_amount'', VFloat 10000000000000000)]\<rparr>])) \<and>
   save_fails refusing_changes (db empty_store)
     (commodityChangeRecord refusing_changes stock_5_to_8 ''commodity_changes'') \<and>
   db (CreateCommodityChanges refusing_changes stock_5_to_8 empty_store) = db empty_store"
proof -
  have ok: "fst (commodity_changes_tx quiet_env stock_5_to_8 empty_store) = None"
    by (simp add: hook_defs store_defs input_defs)
  have amounts: "GetFloat quiet_env (Record stock_5_to_8) ''amount'' = Finite 8"
      "GetFloat quiet_env (Original stock_5_to_8) ''amount'' = Finite 5"
      "Get_rec (Record stock_5_to_8) ''commodity'' = VStr ''c1''"
      "rec_Id (Record stock_5_to_8) = ''oc1''"
    by (simp_all add: hook_defs store_defs input_defs)
  have three: "f64_sub (Finite 8) (Finite 5) = Finite 3"
    using f64_sub_of_int [of 8 5] by simp
  have old: "db empty_store ''commodity_changes'' = Some []"
    by (simp add: input_defs)
  from stock_update_change_row [of quiet_env stock_5_to_8 empty_store] ok
  obtain rows i where "db empty_store ''commodity_changes'' = Some rows"
    "db (CreateCommodityChanges quiet_env stock_5_to_8 empty_store) =
           (db empty_store)(''commodity_changes'' \<mapsto> rows @
             [\<lparr>row_id = i,
               row_flds =
                 [(''outpost_commodity'', VStr (rec_Id (Record stock_5_to_8))),
                  (''commodity'', Get_rec (Record stock_5_to_8) ''commodity''),
                  (''change_amount'',
                   val_of_f64 (f64_sub (GetFloat quiet_env (Record stock_5_to_8) ''amount'')
                                        (GetFloat quiet_env (Original stock_5_to_8) ''amount'')))]\<rparr>])"
    by blast
  with old amounts three
  have row: "\<exists>i. db (CreateCommodityChanges quiet_env stock_5_to_8 empty_store) =
          (db empty_store)(''commodity_changes'' \<mapsto>
            [\<lparr>row_id = i,
              row_flds = [(''outpost_commodity'', VStr ''oc1''), (''commodity'', VStr ''c1''),
                          (''change_amount'', VFloat 3)]\<rparr>])"
    by auto
  have ok2: "fst (commodity_changes_tx quiet_env stock_1_to_1e16 empty_store) = None"
    by (simp add: hook_defs store_defs input_defs)
  have amounts2: "GetFloat quiet_env (Record stock_1_to_1e16) ''amount'' = Finite 10000000000000000"
      "GetFloat quiet_env (Original stock_1_to_1e16) ''amount'' = Finite 1"
      "Get_rec (Record stock_1_to_1e16) ''commodity'' = VStr ''c1''"
      "rec_Id (Record stock_1_to_1e16) = ''oc1''"
    by (simp_all add: hook_defs store_defs input_defs)
  from stock_update_change_row [of quiet_env stock_1_to_1e16 empty_store] ok2
  obtain rows2 i2 where "db empty_store ''commodity_changes'' = Some rows2"
    "db (CreateCommodityChanges quiet_env stock_1_to_1e16 empty_store) =
           (db empty_store)(''commodity_changes'' \<mapsto> rows2 @
             [\<lparr>row_id = i2,
               row_flds =
                 [(''outpost_commodity'', VStr (rec_Id (Record stock_1_to_1e16))),
                  (''commodity'', Get_rec (Record stock_1_to_1e16) ''commodity''),
                  (''change_amount'',
                   val_of_f64 (f64_sub (GetFloat quiet_env (Record stock_1_to_1e16) ''amount'')
                                        (GetFloat quiet_env (Original stock_1_to_1e16) ''amount'')))]\<rparr>])"
    by blast
  with old amounts2 f64_sub_rounds
  have row2: "\<exists>i. db (CreateCommodityChanges quiet_env stock_1_to_1e16 empty_store) =
          (db empty_store)(''commodity_changes'' \<mapsto>
            [\<lparr>row_id = i,
              row_flds = [(''outpost_commodity'', VStr ''oc1''), (''commodity'', VStr ''c1''),
                          (''change_amount'', VFloat 10000000000000000)]\<rparr>])"
    by auto
  have rej: "save_fails refusing_changes (db empty_store)
     (commodityChangeRecord refusing_changes stock_5_to_8 ''commodity_changes'')"
    by (simp add: hook_defs store_defs input_defs)
  from stock_update_change_row [of refusing_changes stock_5_to_8 empty_store] rej
  have "db (CreateCommodityChanges refusing_changes stock_5_to_8 empty_store) = db empty_store"
    by blast
  with ok row ok2 row2 rej show ?thesis
    by blast
qed

section \<open>Missing settings\<close>

lemma UpdateCommodities_missing_setting:
  "cfg ''UEX_API_URL'' = None \<or> cfg ''UEX_API_KEY'' = None \<Longrightarrow> UpdateCommodities cfg E s = s"
  by (auto simp: UpdateCommodities_def viper_Get_string_def split: option.splits)

text \<open>
  C1 at a configuration that has the API URL and no API key. \<^verbatim>\<open>UpdateCommodities\<close>
  returns at once (lemma \<open>UpdateCommodities_missing_setting\<close>);
  \<^verbatim>\<open>UpdateStarSystems\<close> logs the failure and goes on: it sends the request for the
  star systems with the header \<^verbatim>\<open>Authorization: Bearer\<close> and an empty key, then the
  requests for planets, moons and space stations, and writes the star system to the
  store.
\<close>

theorem missing_key_star_systems_still_synced:
  "viper_Get_string only_url ''UEX_API_KEY'' = ([], False) \<and>
   trace (UpdateStarSystems only_url (serving_systems [stanton]) empty_store) =
     [Do \<lparr>url = ''https://uex/star_systems'',
          headers = [(''Content-Type'', ''application/json''),
                     (''Authorization'', ''Bearer '')]\<rparr>,
      Find ''star_systems'' ''code'' ''ST'', Tx True,
      Do \<lparr>url = ''https://uex/planets?id_star_system=68'', headers = []\<rparr>, Tx True,
      Do \<lparr>url = ''https://uex/moons?id_star_system=68'', headers = []\<rparr>, Tx True,
      Do \<lparr>url = ''https://uex/space_stations?id_star_system=68'', headers = []\<rparr>, Tx True] \<and>
   db (UpdateStarSystems only_url (serving_systems [stanton]) empty_store) ''star_systems'' =
     Some [\<lparr>row_id = ''r0'',
            row_flds = [(''name'', VStr ''Stanton''), (''code'', VStr ''ST''),
                        (''jurisdiction'', VStr ''UEE''),
                        (''faction'', VStr ''United Empire of Earth'')]\<rparr>]"
  by (simp add: system_defs store_defs input_defs string_defs)

section \<open>How often each kind is fetched\<close>

text \<open>
  When every request is answered and the collections exist, the requests of a run are,
  in order: the one for the star systems, and then for each relevant system the request
  for its planets followed by the requests for the moons of all relevant systems and
  for the space stations of all relevant systems. With \<open>n\<close> relevant systems that is
  \<open>n\<close> requests for planets, \<open>n * n\<close> for moons and \<open>n * n\<close> for space stations.
\<close>

lemma requested_append [simp]: "requested (xs @ ys) = requested xs @ requested ys"
  by (induction xs rule: requested.induct) simp_all

lemma calm_refl [simp]: "calm s s"
  by (simp add: calm_def)

lemma calm_trans: "calm s s1 \<Longrightarrow> calm s1 s2 \<Longrightarrow> calm s s2"
  by (simp add: calm_def)

lemma Save_calm: "Save E r s = (res, s') \<Longrightarrow> calm s s'"
  by (auto simp: Save_def calm_def split: if_splits option.splits)

lemma Find_calm: "FindFirstRecordByData c k v s = (r, s') \<Longrightarrow> calm s s'"
  by (auto simp: FindFirstRecordByData_def log_event_def calm_def)

lemma for_each_calm:
  assumes "\<And>x s res s'. f x s = (res, s') \<Longrightarrow> calm s s'"
  shows "for_each f xs s = (res, s') \<Longrightarrow> calm s s'"
proof (induction xs arbitrary: s)
  case Nil
  then show ?case by simp
next
  case (Cons x xs)
  obtain r1 s1 where st: "f x s = (r1, s1)" by (cases "f x s")
  from assms [OF st] have q: "calm s s1" .
  show ?case
  proof (cases r1)
    case None
    with Cons st have "calm s1 s'" by simp
    with q show ?thesis by (rule calm_trans)
  next
    case (Some e)
    with Cons.prems st q show ?thesis by simp
  qed
qed

lemma RunInTransaction_calm:
  assumes "\<And>x s res s'. f x s = (res, s') \<Longrightarrow> calm s s'"
  shows "calm s (snd (RunInTransaction (for_each f xs) s))"
proof -
  obtain res s' where fe: "for_each f xs s = (res, s')" by (cases "for_each f xs s")
  from for_each_calm [of f, OF assms fe] fe show ?thesis
    by (cases res) (simp_all add: RunInTransaction_def log_event_def calm_def)
qed

lemma planet_step_calm: "planet_step E c x s = (res, s') \<Longrightarrow> calm s s'"
  by (auto simp: planet_step_def split: prod.splits option.splits
      dest!: Find_calm Save_calm intro: calm_trans)

lemma moon_step_calm: "moon_step E c x s = (res, s') \<Longrightarrow> calm s s'"
  by (auto simp: moon_step_def split: prod.splits option.splits
      dest!: Find_calm Save_calm intro: calm_trans)

lemma station_parents_calm: "station_parents t s = (r, s') \<Longrightarrow> calm s s'"
  by (auto simp: station_parents_def split: if_splits prod.splits
      dest!: Find_calm intro: calm_trans)

lemma station_step_calm: "station_step E c x s = (res, s') \<Longrightarrow> calm s s'"
  by (auto simp: station_step_def split: prod.splits option.splits
      dest!: Find_calm Save_calm station_parents_calm intro: calm_trans)

lemma after_calm: "calm (log_event (Do r) s) s' \<Longrightarrow> after s [url r] s'"
  by (simp add: calm_def after_def log_event_def)

lemma after_trans: "after s us s1 \<Longrightarrow> after s1 vs s2 \<Longrightarrow> after s (us @ vs) s2"
  by (simp add: after_def)

lemma moons_of_system_all:
  assumes "answers_all E" "db s ''moons'' \<noteq> None"
  shows "\<exists>s'. moons_of_system E u system s = (None, s') \<and>
           after s [kind_url u ''moons'' system] s'"
proof -
  let ?r = "\<lparr>url = kind_url u ''moons'' system, headers = []\<rparr>"
  from assms have "decoded (moons_api E ?r) \<noteq> None"
    by (simp add: answers_all_def)
  then obtain data where "decoded (moons_api E ?r) = Some data"
    by auto
  with assms have "moons_of_system E u system s =
      (None, snd (RunInTransaction (for_each (moon_step E ''moons'') data) (log_event (Do ?r) s)))"
    by (auto simp: moons_of_system_def answers_all_def Let_def FindCollectionByNameOrId_def
        log_event_def kind_url_def)
  moreover have "after s [kind_url u ''moons'' system]
      (snd (RunInTransaction (for_each (moon_step E ''moons'') data) (log_event (Do ?r) s)))"
    using after_calm [of ?r s]
      RunInTransaction_calm [of "moon_step E ''moons''" "log_event (Do ?r) s" data,
        OF moon_step_calm]
    by simp
  ultimately show ?thesis by simp
qed

lemma stations_of_system_all:
  assumes "answers_all E" "db s ''space_stations'' \<noteq> None"
  shows "\<exists>s'. stations_of_system E u system s = (None, s') \<and>
           after s [kind_url u ''space_stations'' system] s'"
proof -
  let ?r = "\<lparr>url = kind_url u ''space_stations'' system, headers = []\<rparr>"
  from assms have "decoded (space_stations_api E ?r) \<noteq> None"
    by (simp add: answers_all_def)
  then obtain data where "decoded (space_stations_api E ?r) = Some data"
    by auto
  with assms have "stations_of_system E u system s =
      (None, snd (RunInTransaction (for_each (station_step E ''space_stations'') data)
                    (log_event (Do ?r) s)))"
    by (auto simp: stations_of_system_def answers_all_def Let_def FindCollectionByNameOrId_def
        log_event_def kind_url_def)
  moreover have "after s [kind_url u ''space_stations'' system]
      (snd (RunInTransaction (for_each (station_step E ''space_stations'') data)
              (log_event (Do ?r) s)))"
    using after_calm [of ?r s]
      RunInTransaction_calm [of "station_step E ''space_stations''" "log_event (Do ?r) s" data,
        OF station_step_calm]
    by simp
  ultimately show ?thesis by simp
qed

lemma for_each_all:
  assumes "\<And>x s. k \<in> dom (db s) \<Longrightarrow> \<exists>s'. f x s = (None, s') \<and> after s (g x) s'"
    and "k \<in> dom (db s)"
  shows "\<exists>s'. for_each f xs s = (None, s') \<and> after s (concat (map g xs)) s'"
  using assms(2)
proof (induction xs arbitrary: s)
  case Nil
  then show ?case by (simp add: after_def)
next
  case (Cons x xs)
  from assms(1) [OF Cons.prems, of x] obtain s1 where
    st: "f x s = (None, s1)" "after s (g x) s1"
    by blast
  with Cons.prems have "k \<in> dom (db s1)" by (simp add: after_def)
  from Cons.IH [OF this] obtain s' where
    "for_each f xs s1 = (None, s')" "after s1 (concat (map g xs)) s'"
    by blast
  with st after_trans [of s "g x" s1 "concat (map g xs)" s'] show ?case by simp
qed

lemma planets_of_system_all:
  assumes "answers_all E"
    and "{''planets'', ''moons'', ''space_stations''} \<subseteq> dom (db s)"
  shows "\<exists>s'. planets_of_system E u systems system s = (None, s') \<and>
           after s (kind_url u ''planets'' system # map (kind_url u ''moons'') systems @
                    map (kind_url u ''space_stations'') systems) s'"
proof -
  let ?r = "\<lparr>url = kind_url u ''planets'' system, headers = []\<rparr>"
  from assms have "decoded (planets_api E ?r) \<noteq> None"
    by (simp add: answers_all_def)
  then obtain data where data: "decoded (planets_api E ?r) = Some data"
    by auto
  let ?s1 = "snd (RunInTransaction (for_each (planet_step E ''planets'') data)
                    (log_event (Do ?r) s))"
  have a1: "after s [kind_url u ''planets'' system] ?s1"
    using after_calm [of ?r s ?s1]
      RunInTransaction_calm [of "planet_step E ''planets''" "log_event (Do ?r) s" data,
        OF planet_step_calm]
    by simp
  with assms(2) have m: "''moons'' \<in> dom (db ?s1)"
    by (simp add: after_def)
  from for_each_all [of "''moons''" "moons_of_system E u" "\<lambda>x. [kind_url u ''moons'' x]",
      OF _ m, of systems] moons_of_system_all [OF assms(1)]
  obtain s2 where s2: "for_each (moons_of_system E u) systems ?s1 = (None, s2)"
      "after ?s1 (concat (map (\<lambda>x. [kind_url u ''moons'' x]) systems)) s2"
    by blast
  with a1 assms(2) have t: "''space_stations'' \<in> dom (db s2)"
    by (simp add: after_def)
  from for_each_all [of "''space_stations''" "stations_of_system E u"
      "\<lambda>x. [kind_url u ''space_stations'' x]", OF _ t, of systems]
    stations_of_system_all [OF assms(1)]
  obtain s3 where s3: "for_each (stations_of_system E u) systems s2 = (None, s3)"
      "after s2 (concat (map (\<lambda>x. [kind_url u ''space_stations'' x]) systems)) s3"
    by blast
  have c: "concat (map (\<lambda>x. [h x]) xs) = map h xs" for h :: "StarSystem \<Rightarrow> string" and xs
    by (induction xs) simp_all
  from data assms s2(1) s3(1)
  have "planets_of_system E u systems system s = (None, s3)"
    by (auto simp: planets_of_system_def answers_all_def Let_def FindCollectionByNameOrId_def
        kind_url_def log_event_def split: option.splits)
  moreover from a1 s2(2) s3(2)
  have "after s (kind_url u ''planets'' system # map (kind_url u ''moons'') systems @
                    map (kind_url u ''space_stations'') systems) s3"
    by (simp add: after_def c)
  ultimately show ?thesis by blast
qed

lemma planets_loop_all:
  assumes "answers_all E"
    and "{''planets'', ''moons'', ''space_stations''} \<subseteq> dom (db s)"
  shows "requested (trace (snd (for_each (planets_of_system E u systems) systems s))) =
           requested (trace s) @
           concat (map (\<lambda>system. kind_url u ''planets'' system #
                          map (kind_url u ''moons'') systems @
                          map (kind_url u ''space_stations'') systems) systems)"
proof -
  have "\<exists>s'. for_each (planets_of_system E u systems) ys s = (None, s') \<and>
          after s (concat (map (\<lambda>system. kind_url u ''planets'' system #
                          map (kind_url u ''moons'') systems @
                          map (kind_url u ''space_stations'') systems) ys)) s'" for ys
    using assms(2)
  proof (induction ys arbitrary: s)
    case Nil
    then show ?case by (simp add: after_def)
  next
    case (Cons y ys)
    from planets_of_system_all [OF assms(1) Cons.prems, of u systems y] obtain s1 where
      st: "planets_of_system E u systems y s = (None, s1)"
        "after s (kind_url u ''planets'' y # map (kind_url u ''moons'') systems @
                    map (kind_url u ''space_stations'') systems) s1"
      by blast
    with Cons.prems have "{''planets'', ''moons'', ''space_stations''} \<subseteq> dom (db s1)"
      by (simp add: after_def)
    from Cons.IH [OF this] obtain s' where
      "for_each (planets_of_system E u systems) ys s1 = (None, s')"
      "after s1 (concat (map (\<lambda>system. kind_url u ''planets'' system #
                          map (kind_url u ''moons'') systems @
                          map (kind_url u ''space_stations'') systems) ys)) s'"
      by blast
    with st show ?case
      by (auto simp: after_def)
  qed
  from this [of systems] show ?thesis
    by (auto simp: after_def)
qed

lemma planets_loop_count:
  assumes "answers_all E"
    and "{''planets'', ''moons'', ''space_stations''} \<subseteq> dom (db s)"
  shows "length (requested (trace (snd (for_each (planets_of_system E u systems) systems s)))) =
           length (requested (trace s)) + length systems + 2 * (length systems * length systems)"
proof -
  have "length (concat (map (\<lambda>system. kind_url u ''planets'' system #
                          map (kind_url u ''moons'') systems @
                          map (kind_url u ''space_stations'') systems) ys)) =
        length ys + 2 * (length ys * length systems)" for ys
    by (induction ys) simp_all
  with planets_loop_all [OF assms, of u systems] show ?thesis
    by simp
qed

lemma system_step_calm: "system_step E c x s = (res, s') \<Longrightarrow> calm s s'"
  by (auto simp: system_step_def split: prod.splits option.splits
      dest!: Find_calm Save_calm intro: calm_trans)

lemma UpdateStarSystems_requests:
  assumes all: "answers_all E"
    and sys: "\<And>r. decoded (star_systems_api E r) = Some data"
    and colls: "{''star_systems'', ''planets'', ''moons'', ''space_stations''} \<subseteq> dom (db s)"
    and u: "u = fst (viper_Get_string cfg ''UEX_API_URL'')"
    and rel: "systems = filter (\<lambda>system. s_IsAvailable system = 1 \<and> s_IsVisible system = 1) data"
  shows "requested (trace (UpdateStarSystems cfg E s)) =
           requested (trace s) @ (u @ ''/star_systems'') #
           concat (map (\<lambda>system. kind_url u ''planets'' system #
                          map (kind_url u ''moons'') systems @
                          map (kind_url u ''space_stations'') systems) systems) \<and>
         length (requested (trace (UpdateStarSystems cfg E s))) =
           length (requested (trace s)) + 1 + length systems +
           2 * (length systems * length systems)"
proof -
  obtain k ok where key: "viper_Get_string cfg ''UEX_API_KEY'' = (k, ok)"
    by (cases "viper_Get_string cfg ''UEX_API_KEY''")
  obtain u' ok' where url: "viper_Get_string cfg ''UEX_API_URL'' = (u', ok')"
    by (cases "viper_Get_string cfg ''UEX_API_URL''")
  with u have uu: "u' = u" by simp
  let ?r = "\<lparr>url = u @ ''/star_systems'', headers = std_headers k\<rparr>"
  let ?s1 = "log_event (Do ?r) s"
  let ?s2 = "snd (RunInTransaction (for_each (system_step E ''star_systems'') systems) ?s1)"
  have c: "calm ?s1 ?s2"
    by (rule RunInTransaction_calm) (rule system_step_calm)
  then have d: "{''planets'', ''moons'', ''space_stations''} \<subseteq> dom (db ?s2)"
    and t: "requested (trace ?s2) = requested (trace s) @ [u @ ''/star_systems'']"
    using colls by (auto simp: calm_def log_event_def)
  have run: "UpdateStarSystems cfg E s =
      snd (for_each (planets_of_system E u systems) systems ?s2)"
    using all sys colls key url uu rel
    by (auto simp: UpdateStarSystems_def star_systems_sync_def answers_all_def Let_def
        FindCollectionByNameOrId_def log_event_def split: option.splits)
  from planets_loop_all [OF all d, of u systems] planets_loop_count [OF all d, of u systems]
    run t
  show ?thesis by simp
qed

text \<open>
  C2 at two star systems, every request answered. The requests of the run, in order:
  the planets are asked for once per system, the moons and the space stations twice
  per system, since their loops over all systems run inside each turn of the loop for
  the planets (lemma \<open>UpdateStarSystems_requests\<close> has the general form).
\<close>

theorem two_systems_four_moon_fetches:
  "requested (trace (UpdateStarSystems both_settings (serving_systems [stanton, pyro])
                       empty_store)) =
     [''https://uex/star_systems'',
      ''https://uex/planets?id_star_system=68'',
      ''https://uex/moons?id_star_system=68'',
      ''https://uex/moons?id_star_system=64'',
      ''https://uex/space_stations?id_star_system=68'',
      ''https://uex/space_stations?id_star_system=64'',
      ''https://uex/planets?id_star_system=64'',
      ''https://uex/moons?id_star_system=68'',
      ''https://uex/moons?id_star_system=64'',
      ''https://uex/space_stations?id_star_system=68'',
      ''https://uex/space_stations?id_star_system=64'']"
  by (simp add: system_defs store_defs input_defs string_defs)

section \<open>Running the commodity synchronisation twice\<close>

text \<open>
  C3 at one upstream commodity whose illegal field is 2, on a store without
  commodities. The first run creates the row with \<^verbatim>\<open>is_illegal\<close> set to
  \<^verbatim>\<open>ConvertToBool(2)\<close>, which is false; the second run finds the row and sets
  \<^verbatim>\<open>is_illegal\<close> to the integer 2 itself.
\<close>

theorem second_run_changes_is_illegal:
  "db (UpdateCommodities both_settings (serving_commodities [flagged]) empty_store)
      ''commodities'' =
     Some [\<lparr>row_id = ''r0'',
            row_flds = [(''name'', VStr ''Gold Ore''), (''code'', VStr ''GOLD''),
                        (''type'', VStr ''Ore''), (''price_buy'', VFloat 0),
                        (''price_sell'', VFloat 5), (''is_illegal'', VBool False)]\<rparr>] \<and>
   db (UpdateCommodities both_settings (serving_commodities [flagged])
         (UpdateCommodities both_settings (serving_commodities [flagged]) empty_store))
      ''commodities'' =
     Some [\<lparr>row_id = ''r0'',
            row_flds = [(''name'', VStr ''Gold Ore''), (''code'', VStr ''GOLD''),
                        (''type'', VStr ''Ore''), (''price_buy'', VFloat 0),
                        (''price_sell'', VFloat 5), (''is_illegal'', VInt16 2)]\<rparr>]"
  by (simp add: commodity_defs store_defs input_defs string_defs)

section \<open>The fields of a star-system record\<close>

text \<open>
  C4, as the code has it. A turn of the loop that saved the record of a star system
  changed the store in one of two ways. When no row had the code of the system, one
  row was appended, whose fields are exactly name, code, jurisdiction and faction as
  the API supplied them. When a row had the code, that row was replaced by itself with
  jurisdiction and faction set to what the API supplied, every other field as it was,
  the name included. On neither path are the numeric identifier or the two flags
  written. The row then found under the code is that row.
\<close>

theorem star_system_record_fields:
  assumes saved: "system_step E ''star_systems'' system s = (None, s')"
  shows "\<exists>rows. db s ''star_systems'' = Some rows \<and>
           (case first_row (db s) ''star_systems'' ''code'' (s_Code system) of
              None \<Rightarrow>
                (\<exists>i. db s' = (db s)(''star_systems'' \<mapsto> rows @
                   [\<lparr>row_id = i,
                     row_flds =
                       [(''name'', VStr (s_Name system)), (''code'', VStr (s_Code system)),
                        (''jurisdiction'', VStr (s_Jurisdiction system)),
                        (''faction'', VStr (s_Faction system))]\<rparr>]))
            | Some old \<Rightarrow>
                db s' = (db s)(''star_systems'' \<mapsto>
                  map (\<lambda>r. if row_id r = row_id old
                           then \<lparr>row_id = row_id old,
                                 row_flds =
                                   put_field ''faction'' (VStr (s_Faction system))
                                     (put_field ''jurisdiction'' (VStr (s_Jurisdiction system))
                                        (row_flds old))\<rparr>
                           else r) rows)) \<and>
           (\<exists>x. first_row (db s') ''star_systems'' ''code'' (s_Code system) = Some x \<and>
                field_of (row_flds x) ''code'' = VStr (s_Code system) \<and>
                field_of (row_flds x) ''jurisdiction'' = VStr (s_Jurisdiction system) \<and>
                field_of (row_flds x) ''faction'' = VStr (s_Faction system) \<and>
                (case first_row (db s) ''star_systems'' ''code'' (s_Code system) of
                   None \<Rightarrow>
                     row_flds x =
                       [(''name'', VStr (s_Name system)), (''code'', VStr (s_Code system)),
                        (''jurisdiction'', VStr (s_Jurisdiction system)),
                        (''faction'', VStr (s_Faction system))]
                 | Some old \<Rightarrow>
                     row_id x = row_id old \<and>
                     row_flds x =
                       put_field ''faction'' (VStr (s_Faction system))
                         (put_field ''jurisdiction'' (VStr (s_Jurisdiction system))
                            (row_flds old)) \<and>
                     (\<forall>k. k \<noteq> ''jurisdiction'' \<and> k \<noteq> ''faction'' \<longrightarrow>
                          field_of (row_flds x) k = field_of (row_flds old) k)))"
proof -
  let ?P = "\<lambda>x. field_of (row_flds x) ''code'' = VStr (s_Code system)"
  from saved obtain rows where rows: "db s ''star_systems'' = Some rows"
    by (auto simp: system_step_def FindFirstRecordByData_def first_row_def Save_def
        log_event_def as_record_def split: if_splits option.splits)
  show ?thesis
  proof (cases "find ?P rows")
    case None
    let ?fs = "[(''name'', VStr (s_Name system)), (''code'', VStr (s_Code system)),
                (''jurisdiction'', VStr (s_Jurisdiction system)),
                (''faction'', VStr (s_Faction system))]"
    from None rows have nf: "first_row (db s) ''star_systems'' ''code'' (s_Code system) = None"
      by (simp add: first_row_def)
    from None saved rows obtain i where
      new: "db s' = (db s)(''star_systems'' \<mapsto> rows @ [\<lparr>row_id = i, row_flds = ?fs\<rparr>])"
      by (auto simp: system_step_def FindFirstRecordByData_def first_row_def Save_def
          log_event_def split: if_splits)
    have "first_row (db s') ''star_systems'' ''code'' (s_Code system) =
            Some \<lparr>row_id = i, row_flds = ?fs\<rparr>"
      using new None by (simp add: first_row_def find_append_new field_of_def)
    with rows nf new show ?thesis
      by (auto simp: field_of_def)
  next
    case (Some x)
    let ?fs = "put_field ''faction'' (VStr (s_Faction system))
                 (put_field ''jurisdiction'' (VStr (s_Jurisdiction system)) (row_flds x))"
    let ?y = "\<lparr>row_id = row_id x, row_flds = ?fs\<rparr>"
    from Some rows have fx: "first_row (db s) ''star_systems'' ''code'' (s_Code system) = Some x"
      by (simp add: first_row_def)
    from Some have "?P x"
      by (auto simp: find_Some_iff)
    then have Py: "?P ?y"
      by simp
    from Some saved rows
    have upd: "db s' = (db s)(''star_systems'' \<mapsto>
            map (\<lambda>r. if row_id r = row_id x then ?y else r) rows)"
      by (auto simp: system_step_def FindFirstRecordByData_def first_row_def Save_def
          log_event_def as_record_def split: if_splits)
    then have "first_row (db s') ''star_systems'' ''code'' (s_Code system) = Some ?y"
      using find_map_replace [of ?P rows x ?y, OF Some Py]
      by (simp add: first_row_def)
    with rows fx upd Py show ?thesis
      by simp
  qed
qed

theorem star_system_record_fields_witness:
  "fst (system_step quiet_env ''star_systems'' stanton empty_store) = None \<and>
   (\<exists>x. first_row (db (snd (system_step quiet_env ''star_systems'' stanton empty_store)))
           ''star_systems'' ''code'' ''ST'' = Some x \<and>
        row_flds x =
          [(''name'', VStr ''Stanton''), (''code'', VStr ''ST''), (''jurisdiction'', VStr ''UEE''),
           (''faction'', VStr ''United Empire of Earth'')]) \<and>
   fst (system_step quiet_env ''star_systems'' stanton stale_system_store) = None \<and>
   db (snd (system_step quiet_env ''star_systems'' stanton stale_system_store)) =
     (db stale_system_store)(''star_systems'' \<mapsto>
        [\<lparr>row_id = ''y1'',
          row_flds = [(''name'', VStr ''Stanton I''), (''code'', VStr ''ST''),
                      (''jurisdiction'', VStr ''UEE''),
                      (''faction'', VStr ''United Empire of Earth'')]\<rparr>])"
proof -
  have ok: "fst (system_step quiet_env ''star_systems'' stanton empty_store) = None"
    by (simp add: system_defs store_defs input_defs)
  then have saved: "system_step quiet_env ''star_systems'' stanton empty_store =
      (None, snd (system_step quiet_env ''star_systems'' stanton empty_store))"
    by (simp add: prod_eq_iff)
  have new: "first_row (db empty_store) ''star_systems'' ''code'' (s_Code stanton) = None"
    by (simp add: first_row_def input_defs)
  from star_system_record_fields [OF saved] new
  have created: "\<exists>x. first_row (db (snd (system_step quiet_env ''star_systems'' stanton
                      empty_store))) ''star_systems'' ''code'' ''ST'' = Some x \<and>
        row_flds x =
          [(''name'', VStr ''Stanton''), (''code'', VStr ''ST''), (''jurisdiction'', VStr ''UEE''),
           (''faction'', VStr ''United Empire of Earth'')]"
    by (auto simp: stanton_def)
  have ok2: "fst (system_step quiet_env ''star_systems'' stanton stale_system_store) = None"
    by (simp add: system_defs store_defs input_defs stale_system_store_def)
  then have saved2: "system_step quiet_env ''star_systems'' stanton stale_system_store =
      (None, snd (system_step quiet_env ''star_systems'' stanton stale_system_store))"
    by (simp add: prod_eq_iff)
  have rows: "db stale_system_store ''star_systems'' =
      Some [\<lparr>row_id = ''y1'',
             row_flds = [(''name'', VStr ''Stanton I''), (''code'', VStr ''ST''),
                         (''jurisdiction'', VStr ''None'')]\<rparr>]"
    and old: "first_row (db stale_system_store) ''star_systems'' ''code'' (s_Code stanton) =
      Some \<lparr>row_id = ''y1'',
            row_flds = [(''name'', VStr ''Stanton I''), (''code'', VStr ''ST''),
                        (''jurisdiction'', VStr ''None'')]\<rparr>"
    by (simp_all add: first_row_def field_of_def input_defs stale_system_store_def)
  from star_system_record_fields [OF saved2] rows old
  have updated: "db (snd (system_step quiet_env ''star_systems'' stanton stale_system_store)) =
     (db stale_system_store)(''star_systems'' \<mapsto>
        [\<lparr>row_id = ''y1'',
          row_flds = [(''name'', VStr ''Stanton I''), (''code'', VStr ''ST''),
                      (''jurisdiction'', VStr ''UEE''),
                      (''faction'', VStr ''United Empire of Earth'')]\<rparr>])"
    by (auto simp: stanton_def)
  from ok created ok2 updated show ?thesis
    by blast
qed

text \<open>
  C4, as stated: the API gives the star system the identifier 68, and the record that
  the run persists has the four fields name, code, jurisdiction and faction.
\<close>

theorem star_system_row_without_uex_id:
  "s_UexID stanton = 68 \<and>
   db (UpdateStarSystems both_settings (serving_systems [stanton]) empty_store) ''star_systems'' =
     Some [\<lparr>row_id = ''r0'',
            row_flds = [(''name'', VStr ''Stanton''), (''code'', VStr ''ST''),
                        (''jurisdiction'', VStr ''UEE''),
                        (''faction'', VStr ''United Empire of Earth'')]\<rparr>]"
  by (simp add: system_defs store_defs input_defs string_defs)

section \<open>Stations without a planet name\<close>

lemma station_parents_no_planet:
  "t_PlanetName t = [] \<Longrightarrow> station_parents t s = ((None, None), s)"
  by (simp add: station_parents_def)

lemma station_fields_no_parents:
  "field_of (flds (station_fields t y None None r)) ''moon'' = field_of (flds r) ''moon''"
  "field_of (flds (station_fields t y None None r)) ''name'' = VStr (t_Name t)"
  by (simp_all add: station_fields_def Set_Id_def)

text \<open>
  C10, as the code has it. For a space station whose planet name is empty, the turn of
  the loop looks up the star system and, when it is found, the station, and nothing
  else: no moon and no planet. The record it saves gets no moon reference from the
  turn: a created row has no moon field, and an updated row has the moon field it had
  before.
\<close>

theorem no_planet_name_no_moon_written:
  assumes "t_PlanetName spaceStation = []"
  shows "trace (snd (station_step E ''space_stations'' spaceStation s)) =
           trace s @ Find ''star_systems'' ''name'' (t_StarSystemName spaceStation) #
             (if first_row (db s) ''star_systems'' ''name'' (t_StarSystemName spaceStation) = None
              then [] else [Find ''space_stations'' ''name'' (t_Name spaceStation)]) \<and>
         (fst (station_step E ''space_stations'' spaceStation s) = None \<longrightarrow>
            (\<exists>x. first_row (db (snd (station_step E ''space_stations'' spaceStation s)))
                    ''space_stations'' ''name'' (t_Name spaceStation) = Some x \<and>
                 field_of (row_flds x) ''moon'' =
                   (case first_row (db s) ''space_stations'' ''name'' (t_Name spaceStation) of
                      None \<Rightarrow> VNil
                    | Some old \<Rightarrow> field_of (row_flds old) ''moon'')))"
proof (cases "first_row (db s) ''star_systems'' ''name'' (t_StarSystemName spaceStation)")
  case None
  then show ?thesis
    by (simp add: station_step_def FindFirstRecordByData_def log_event_def)
next
  case (Some y)
  let ?P = "\<lambda>x. field_of (row_flds x) ''name'' = VStr (t_Name spaceStation)"
  let ?s3 = "log_event (Find ''space_stations'' ''name'' (t_Name spaceStation))
              (log_event (Find ''star_systems'' ''name'' (t_StarSystemName spaceStation)) s)"
  let ?y = "as_record ''star_systems'' y"
  show ?thesis
  proof (cases "first_row (db s) ''space_stations'' ''name'' (t_Name spaceStation)")
    case None
    let ?r = "station_fields spaceStation ?y None None (NewRecord ''space_stations'')"
    have step: "station_step E ''space_stations'' spaceStation s = Save E ?r ?s3"
      using Some None assms
      by (simp add: station_step_def FindFirstRecordByData_def station_parents_no_planet
          log_event_def)
    have tr: "trace (snd (Save E ?r ?s3)) = trace ?s3"
      using Save_trace [of E ?r ?s3] by (cases "Save E ?r ?s3") simp
    have "\<exists>x. first_row (db (snd (Save E ?r ?s3))) ''space_stations'' ''name''
                 (t_Name spaceStation) = Some x \<and> field_of (row_flds x) ''moon'' = VNil"
      if ok: "fst (Save E ?r ?s3) = None"
    proof -
      from ok obtain rows where rows: "db s ''space_stations'' = Some rows"
        by (auto simp: Save_def log_event_def split: if_splits option.splits)
      with None have nf: "find ?P rows = None"
        by (simp add: first_row_def)
      from ok rows obtain i where
        "db (snd (Save E ?r ?s3)) = (db s)(''space_stations'' \<mapsto>
           rows @ [\<lparr>row_id = i, row_flds = flds ?r\<rparr>])"
        by (auto simp: Save_def log_event_def split: if_splits)
      then show ?thesis
        using find_append_new [of ?P rows "\<lparr>row_id = i, row_flds = flds ?r\<rparr>", OF nf]
        by (simp add: first_row_def station_fields_no_parents) (simp add: field_of_def)
    qed
    with step tr Some None show ?thesis
      by (simp add: log_event_def)
  next
    case old: (Some x)
    let ?r = "station_fields spaceStation ?y None None (as_record ''space_stations'' x)"
    have step: "station_step E ''space_stations'' spaceStation s = Save E ?r ?s3"
      using Some old assms
      by (simp add: station_step_def FindFirstRecordByData_def station_parents_no_planet
          log_event_def)
    have tr: "trace (snd (Save E ?r ?s3)) = trace ?s3"
      using Save_trace [of E ?r ?s3] by (cases "Save E ?r ?s3") simp
    have "\<exists>z. first_row (db (snd (Save E ?r ?s3))) ''space_stations'' ''name''
                 (t_Name spaceStation) = Some z \<and>
               field_of (row_flds z) ''moon'' = field_of (row_flds x) ''moon''"
      if ok: "fst (Save E ?r ?s3) = None"
    proof -
      from old obtain rows where rows: "db s ''space_stations'' = Some rows"
        and fx: "find ?P rows = Some x"
        by (auto simp: first_row_def split: option.splits)
      let ?z = "\<lparr>row_id = row_id x, row_flds = flds ?r\<rparr>"
      have Pz: "?P ?z"
        by (simp add: station_fields_no_parents)
      from ok rows have
        "db (snd (Save E ?r ?s3)) = (db s)(''space_stations'' \<mapsto>
           map (\<lambda>r. if row_id r = row_id x then ?z else r) rows)"
        by (auto simp: Save_def log_event_def as_record_def split: if_splits)
      then show ?thesis
        using find_map_replace [of ?P rows x ?z, OF fx Pz]
        by (simp add: first_row_def station_fields_no_parents as_record_def)
    qed
    with step tr Some old show ?thesis
      by (simp add: log_event_def)
  qed
qed

theorem no_planet_name_no_moon_written_witness:
  "t_PlanetName port = [] \<and> t_MoonName port = ''Yela'' \<and>
   first_row (db no_station_store) ''moons'' ''name'' ''Yela'' =
     Some \<lparr>row_id = ''m1'', row_flds = [(''name'', VStr ''Yela''), (''code'', VStr ''YELA'')]\<rparr> \<and>
   trace (snd (station_step quiet_env ''space_stations'' port no_station_store)) =
     [Find ''star_systems'' ''name'' ''Stanton'', Find ''space_stations'' ''name'' ''Port''] \<and>
   fst (station_step quiet_env ''space_stations'' port no_station_store) = None \<and>
   (\<exists>x. first_row (db (snd (station_step quiet_env ''space_stations'' port no_station_store)))
           ''space_stations'' ''name'' ''Port'' = Some x \<and>
        field_of (row_flds x) ''moon'' = VNil)"
proof -
  have empty: "t_PlanetName port = []" and moon: "t_MoonName port = ''Yela''"
    by (simp_all add: port_def)
  have there: "first_row (db no_station_store) ''moons'' ''name'' ''Yela'' =
     Some \<lparr>row_id = ''m1'', row_flds = [(''name'', VStr ''Yela''), (''code'', VStr ''YELA'')]\<rparr>"
    by (simp add: first_row_def field_of_def no_station_store_def port_store_def empty_store_def)
  have ok: "fst (station_step quiet_env ''space_stations'' port no_station_store) = None"
    by (simp add: system_defs store_defs input_defs no_station_store_def)
  have sys: "first_row (db no_station_store) ''star_systems'' ''name'' (t_StarSystemName port) \<noteq>
             None"
    and new: "first_row (db no_station_store) ''space_stations'' ''name'' (t_Name port) = None"
    and names: "t_StarSystemName port = ''Stanton''" "t_Name port = ''Port''"
      "trace no_station_store = []"
    by (simp_all add: first_row_def field_of_def no_station_store_def port_store_def
        empty_store_def port_def)
  from no_planet_name_no_moon_written [OF empty, of quiet_env no_station_store]
       ok sys new names empty moon there
  show ?thesis
    by simp
qed

text \<open>
  C10, as stated: the station \<open>port\<close> has no planet name and the moon name "Yela"; in
  \<open>port_store\<close> its row refers to the moon \<open>m2\<close>, and after the transaction the
  persisted row still does.
\<close>

theorem stale_moon_reference_kept:
  "t_PlanetName port = [] \<and>
   db (snd (RunInTransaction (for_each (station_step quiet_env ''space_stations'') [port])
              port_store)) ''space_stations'' =
     Some [\<lparr>row_id = ''t1'',
            row_flds = [(''name'', VStr ''Port''), (''moon'', VStr ''m2''),
                        (''pad_types'', VStr ''S''), (''jurisdiction'', VStr ''UEE''),
                        (''faction'', VStr ''None''), (''has_trade_terminal'', VBool True),
                        (''has_refinery'', VBool False), (''star_system'', VStr ''y1''),
                        (''orbit'', VStr ''Yela''), (''is_lagrange'', VBool False)]\<rparr>]"
  by (simp add: system_defs store_defs input_defs)

end
